theory Spec2Isabelle
  imports Main
begin

section \<open>Errors and panics\<close>

text \<open>
  A Go function of the scraper either returns a value, returns a non-nil \<open>error\<close>, or
  panics at run time (a nil pointer dereference, an index out of range). The three
  outcomes are kept apart: a result is \<open>fault + 'a\<close>, with \<open>Inl (Error e)\<close> for an
  error return and \<open>Inl (Panic p)\<close> for a run-time panic.
\<close>

datatype NumErrKind = ErrSyntax | ErrRange

text \<open>\<^verbatim>\<open>strconv.NumError{Func, Num, Err}\<close>, the error of every conversion of \<^verbatim>\<open>strconv\<close>.\<close>

datatype NumError = NumError string string NumErrKind

text \<open>
  The errors of the program: \<open>ErrorString\<close> is what \<^verbatim>\<open>errors.New\<close> and \<^verbatim>\<open>fmt.Errorf\<close>
  make, \<open>StrconvError\<close> a \<^verbatim>\<open>*strconv.NumError\<close>, \<open>TransportError\<close> any error of
  \<^verbatim>\<open>net/http\<close>, \<^verbatim>\<open>io\<close> or \<^verbatim>\<open>html.Parse\<close>.
\<close>

datatype error =
    ErrorString string
  | StrconvError NumError
  | TransportError string

datatype panic = NilDereference | IndexOutOfRange nat nat

datatype fault = Error error | Panic panic

text \<open>Sequencing: the first fault ends the computation.\<close>

definition andThen :: "fault + 'a \<Rightarrow> ('a \<Rightarrow> fault + 'b) \<Rightarrow> fault + 'b" where
  "andThen r k = (case r of Inl e \<Rightarrow> Inl e | Inr v \<Rightarrow> k v)"

text \<open>\<^verbatim>\<open>if err != nil { return nil, err }\<close> on the result of a library call.\<close>

definition fromErr :: "NumError + 'a \<Rightarrow> fault + 'a" where
  "fromErr r = (case r of Inl e \<Rightarrow> Inl (Error (StrconvError e)) | Inr v \<Rightarrow> Inr v)"

section \<open>The markup tree\<close>

text \<open>
  \<^verbatim>\<open>html.Node\<close> of golang.org/x/net/html: a node has a type, its data (the tag name of an
  element, the text of a text node, the text of a comment), its attributes, and the
  pointers \<^verbatim>\<open>FirstChild\<close> and \<^verbatim>\<open>NextSibling\<close>, either of which may be \<^verbatim>\<open>nil\<close>. The value
  of a \<^verbatim>\<open>*html.Node\<close> is therefore \<open>nil\<close> or a node together with everything below and
  to the right of it.
\<close>

datatype NodeType =
  ErrorNode | TextNode | DocumentNode | ElementNode | CommentNode | DoctypeNode | RawNode

record Attribute =
  Namespace :: string
  Key :: string
  Val :: string

datatype Node =
    nil
  | Node (Type: NodeType) (Data: string) (Attr: "Attribute list")
         (FirstChild: Node) (NextSibling: Node)

text \<open>
  A pointer to a node of the page is the way to it from the page's root: a list of
  \<^verbatim>\<open>FirstChild\<close> and \<^verbatim>\<open>NextSibling\<close> steps. The tree is read-only, so a pointer and the
  page determine the node.
\<close>

datatype step = Child | Sibling

fun deref :: "Node \<Rightarrow> step list \<Rightarrow> Node" where
  "deref n [] = n"
| "deref nil (s # p) = nil"
| "deref (Node t d a fc ns) (Child # p) = deref fc p"
| "deref (Node t d a fc ns) (Sibling # p) = deref ns p"

text \<open>
  \<^verbatim>\<open>node.Parent\<close>: the node that owns \<open>node\<close>. On the way to a node, the owner is where
  the last \<^verbatim>\<open>FirstChild\<close> step was taken; a node reached by \<^verbatim>\<open>NextSibling\<close> steps only
  is a root and its \<^verbatim>\<open>Parent\<close> is \<^verbatim>\<open>nil\<close> (\<open>None\<close>).
\<close>

definition Parent :: "step list \<Rightarrow> step list option" where
  "Parent p =
     (case dropWhile (\<lambda>s. s = Sibling) (rev p) of
        [] \<Rightarrow> None
      | s # q \<Rightarrow> Some (rev q))"

text \<open>The node itself followed by its later siblings, in document order.\<close>

fun chain :: "Node \<Rightarrow> Node list" where
  "chain nil = []"
| "chain (Node t d a fc ns) = Node t d a fc ns # chain ns"

subsection \<open>findTextNode\<close>

fun findTextNode :: "Node \<Rightarrow> string \<Rightarrow> step list option" where
  "findTextNode nil text = None"
| "findTextNode (Node t d a fc ns) text =
     (if t = TextNode \<and> d = text then Some []
      else (case findTextNode fc text of
              Some n \<Rightarrow> Some (Child # n)
            | None \<Rightarrow>
               (case findTextNode ns text of
                  Some n \<Rightarrow> Some (Sibling # n)
                | None \<Rightarrow> None)))"

subsection \<open>scrapeTable\<close>

text \<open>The row test of \<^verbatim>\<open>scrapeTable\<close>: exactly one attribute, \<^verbatim>\<open>align="left"\<close>.\<close>

definition isDataRow :: "Attribute list \<Rightarrow> bool" where
  "isDataRow attrs \<longleftrightarrow> length attrs = 1 \<and> Key (attrs ! 0) = ''align'' \<and> Val (attrs ! 0) = ''left''"

text \<open>
  The inner loop over \<^verbatim>\<open>columnPtr\<close>. \<^verbatim>\<open>columnPtr.FirstChild.Data\<close> dereferences
  \<^verbatim>\<open>FirstChild\<close> without a test: on \<^verbatim>\<open>nil\<close> the program panics.
\<close>

fun scrapeColumns :: "Node \<Rightarrow> fault + string list" where
  "scrapeColumns nil = Inr []"
| "scrapeColumns (Node t d a fc ns) =
     (if d = ''td'' then
        (case fc of
           nil \<Rightarrow> Inl (Panic NilDereference)
         | Node t' d' a' fc' ns' \<Rightarrow> andThen (scrapeColumns ns) (\<lambda>vals. Inr (d' # vals)))
      else scrapeColumns ns)"

fun scrapeTable :: "Node \<Rightarrow> fault + string list list" where
  "scrapeTable nil = Inr []"
| "scrapeTable (Node t d a fc ns) =
     (if isDataRow a then
        andThen (scrapeColumns fc) (\<lambda>vals.
        andThen (scrapeTable ns) (\<lambda>scraped. Inr (vals # scraped)))
      else scrapeTable ns)"

section \<open>Library functions\<close>

text \<open>
  The conversions of \<^verbatim>\<open>strconv\<close> and the verbs of \<^verbatim>\<open>fmt\<close> belong to the Go standard
  library. The scraper is verified for every behaviour of them: they are parameters.
  \<open>'f\<close> stands for \<^verbatim>\<open>float64\<close>. The error of a conversion is a \<^verbatim>\<open>*strconv.NumError\<close>.
  \<^item> \<open>ParseInt s\<close> is \<^verbatim>\<open>strconv.ParseInt(s, 10, 64)\<close>, \<open>Atoi s\<close> is \<^verbatim>\<open>strconv.Atoi(s)\<close>,
    \<open>ParseFloat s\<close> is \<^verbatim>\<open>strconv.ParseFloat(s, 64)\<close>;
  \<^item> \<open>Quote s\<close> is what the verb \<^verbatim>\<open>%q\<close> prints for a string, \<open>FormatInt\<close> and
    \<open>FormatFloat\<close> what \<^verbatim>\<open>%v\<close> prints for an integer and for a \<^verbatim>\<open>float64\<close>.
\<close>

record 'f stdlib =
  ParseInt :: "string \<Rightarrow> NumError + int"
  Atoi :: "string \<Rightarrow> NumError + int"
  ParseFloat :: "string \<Rightarrow> NumError + 'f"
  Quote :: "string \<Rightarrow> string"
  FormatInt :: "int \<Rightarrow> string"
  FormatFloat :: "'f \<Rightarrow> string"

text \<open>\<^verbatim>\<open>strings.Split(s, sep)\<close> for a separator of one byte.\<close>

fun Split :: "string \<Rightarrow> char \<Rightarrow> string list" where
  "Split [] sep = [[]]"
| "Split (c # s) sep =
     (if c = sep then [] # Split s sep
      else (case Split s sep of
              [] \<Rightarrow> [[c]]
            | w # ws \<Rightarrow> (c # w) # ws))"

text \<open>Indexing a slice: out of range is a run-time panic.\<close>

definition index :: "'a list \<Rightarrow> nat \<Rightarrow> fault + 'a" where
  "index xs i = (if i < length xs then Inr (xs ! i) else Inl (Panic (IndexOutOfRange i (length xs))))"

text \<open>\<^verbatim>\<open>strings.Split(row[i], " ")[0]\<close>\<close>

definition splitField :: "string list \<Rightarrow> nat \<Rightarrow> fault + string" where
  "splitField row i = andThen (index row i) (\<lambda>cell. index (Split cell (CHR '' '')) 0)"

section \<open>Records and parsing\<close>

text \<open>
  The two record types of the program. The fields of type \<^verbatim>\<open>int64\<close> and \<^verbatim>\<open>int\<close> are
  integers: the program does no arithmetic on them, it only stores what the conversion
  returned and prints it. The fields of type \<^verbatim>\<open>float64\<close> have the type \<open>'f\<close>.
\<close>

record 'f downstreamChannel =
  ChannelID :: string
  LockStatus :: string
  Modulation :: string
  FrequencyHz :: int
  PowerdBmV :: 'f
  SNRMERdB :: 'f
  Corrected :: int
  Uncorrectables :: int

record 'f upstreamChannel =
  Channel :: string
  ChannelID :: string
  LockStatus :: string
  ChannelType :: string
  FrequencyHz :: int
  WidthHz :: int
  PowerdBmV :: 'f

text \<open>
  \<^verbatim>\<open>tableTitle.Parent.Parent.Parent\<close>: \<open>tableTitle\<close> is not \<^verbatim>\<open>nil\<close>; reading \<^verbatim>\<open>Parent\<close>
  of a \<^verbatim>\<open>nil\<close> pointer panics. The result may itself be \<^verbatim>\<open>nil\<close> (\<open>None\<close>).
\<close>

definition ascend3 :: "step list \<Rightarrow> fault + step list option" where
  "ascend3 tableTitle =
     (case Parent tableTitle of
        None \<Rightarrow> Inl (Panic NilDereference)
      | Some p1 \<Rightarrow>
         (case Parent p1 of
            None \<Rightarrow> Inl (Panic NilDereference)
          | Some p2 \<Rightarrow> Inr (Parent p2)))"

definition target :: "Node \<Rightarrow> step list option \<Rightarrow> Node" where
  "target page ptr = (case ptr of None \<Rightarrow> nil | Some p \<Rightarrow> deref page p)"

text \<open>The body of the loop of \<^verbatim>\<open>parseDownstream\<close>, for one row.\<close>

definition downstreamRow :: "'f stdlib \<Rightarrow> string list \<Rightarrow> fault + 'f downstreamChannel" where
  "downstreamRow lib row =
     andThen (splitField row 3) (\<lambda>s3.
     andThen (fromErr (ParseInt lib s3)) (\<lambda>frequencyHz.
     andThen (splitField row 4) (\<lambda>s4.
     andThen (fromErr (ParseFloat lib s4)) (\<lambda>powerdBmV.
     andThen (splitField row 5) (\<lambda>s5.
     andThen (fromErr (ParseFloat lib s5)) (\<lambda>snrMERdB.
     andThen (index row 6) (\<lambda>c6.
     andThen (fromErr (Atoi lib c6)) (\<lambda>corrected.
     andThen (index row 7) (\<lambda>c7.
     andThen (fromErr (Atoi lib c7)) (\<lambda>uncorrectables.
     andThen (index row 0) (\<lambda>c0.
     andThen (index row 1) (\<lambda>c1.
     andThen (index row 2) (\<lambda>c2.
       Inr \<lparr> downstreamChannel.ChannelID = c0,
             downstreamChannel.LockStatus = c1,
             Modulation = c2,
             downstreamChannel.FrequencyHz = frequencyHz,
             downstreamChannel.PowerdBmV = powerdBmV,
             SNRMERdB = snrMERdB,
             Corrected = corrected,
             Uncorrectables = uncorrectables \<rparr>)))))))))))))"

fun downstreamRows :: "'f stdlib \<Rightarrow> string list list \<Rightarrow> fault + 'f downstreamChannel list" where
  "downstreamRows lib [] = Inr []"
| "downstreamRows lib (row # rows) =
     andThen (downstreamRow lib row) (\<lambda>d.
     andThen (downstreamRows lib rows) (\<lambda>data. Inr (d # data)))"

definition parseDownstream :: "'f stdlib \<Rightarrow> Node \<Rightarrow> fault + 'f downstreamChannel list" where
  "parseDownstream lib page =
     (case findTextNode page ''Downstream Bonded Channels'' of
        None \<Rightarrow> Inl (Error (ErrorString ''unable to find downstream bonded channels table''))
      | Some tableTitle \<Rightarrow>
          andThen (ascend3 tableTitle) (\<lambda>rowPtr.
          andThen (scrapeTable (target page rowPtr)) (\<lambda>rows.
            downstreamRows lib rows)))"

text \<open>The body of the loop of \<^verbatim>\<open>parseUpstream\<close>, for one row.\<close>

definition upstreamRow :: "'f stdlib \<Rightarrow> string list \<Rightarrow> fault + 'f upstreamChannel" where
  "upstreamRow lib row =
     andThen (splitField row 4) (\<lambda>s4.
     andThen (fromErr (ParseInt lib s4)) (\<lambda>frequencyHz.
     andThen (splitField row 5) (\<lambda>s5.
     andThen (fromErr (ParseInt lib s5)) (\<lambda>widthHz.
     andThen (splitField row 6) (\<lambda>s6.
     andThen (fromErr (ParseFloat lib s6)) (\<lambda>powerdBmV.
     andThen (index row 0) (\<lambda>c0.
     andThen (index row 1) (\<lambda>c1.
     andThen (index row 2) (\<lambda>c2.
     andThen (index row 3) (\<lambda>c3.
       Inr \<lparr> Channel = c0,
             upstreamChannel.ChannelID = c1,
             upstreamChannel.LockStatus = c2,
             ChannelType = c3,
             upstreamChannel.FrequencyHz = frequencyHz,
             WidthHz = widthHz,
             upstreamChannel.PowerdBmV = powerdBmV \<rparr>))))))))))"

fun upstreamRows :: "'f stdlib \<Rightarrow> string list list \<Rightarrow> fault + 'f upstreamChannel list" where
  "upstreamRows lib [] = Inr []"
| "upstreamRows lib (row # rows) =
     andThen (upstreamRow lib row) (\<lambda>u.
     andThen (upstreamRows lib rows) (\<lambda>data. Inr (u # data)))"

definition parseUpstream :: "'f stdlib \<Rightarrow> Node \<Rightarrow> fault + 'f upstreamChannel list" where
  "parseUpstream lib page =
     (case findTextNode page ''Upstream Bonded Channels'' of
        None \<Rightarrow> Inl (Error (ErrorString ''unable to find upstream bonded channels table''))
      | Some tableTitle \<Rightarrow>
          andThen (ascend3 tableTitle) (\<lambda>rowPtr.
          andThen (scrapeTable (target page rowPtr)) (\<lambda>rows.
            upstreamRows lib rows)))"

section \<open>Fetching the page\<close>

text \<open>
  The fetcher's fields \<^verbatim>\<open>addr\<close>, \<^verbatim>\<open>username\<close>, \<^verbatim>\<open>passwd\<close> and \<^verbatim>\<open>token\<close>. The HTTP
  client and the modem behind it are the environment below; the mutex serialises calls
  and has no effect on a single call.
\<close>

record fetcher =
  addr :: string
  username :: string
  passwd :: string
  token :: string

text \<open>A \<^verbatim>\<open>GET\<close> request: its URL and the credentials set by \<^verbatim>\<open>SetBasicAuth\<close>, if any.\<close>

record request =
  URL :: string
  BasicAuth :: "(string \<times> string) option"

text \<open>
  The environment of the fetcher, a parameter of the model:
  \<^item> \<open>NewRequestErr url\<close>: the error of \<^verbatim>\<open>http.NewRequestWithContext(ctx, "GET", url, nil)\<close>,
    if any;
  \<^item> \<open>Do hist req\<close>: the outcome of \<^verbatim>\<open>f.client.Do(req)\<close> after the requests \<open>hist\<close> have been
    sent: an error, or a response, whose body is given by the outcome of reading it to
    its end (a read error, or the bytes);
  \<^item> \<open>Parse bytes\<close>: \<^verbatim>\<open>html.Parse\<close> on a body with these bytes;
  \<^item> \<open>EncodeToString\<close>: \<^verbatim>\<open>base64.URLEncoding.EncodeToString\<close>.
  The requests sent so far are the state of the environment; every call of \<open>Do\<close> adds one.
\<close>

record env =
  NewRequestErr :: "string \<Rightarrow> error option"
  Do :: "request list \<Rightarrow> request \<Rightarrow> error + (error + string)"
  Parse :: "string \<Rightarrow> error + Node"
  EncodeToString :: "string \<Rightarrow> string"

definition fetchPageInner :: "env \<Rightarrow> fetcher \<Rightarrow> request list \<Rightarrow> (error + Node) \<times> request list" where
  "fetchPageInner e f hist =
     (let url = ''https://'' @ addr f @ ''/cmconnectionstatus.html?ct_'' @ token f in
      case NewRequestErr e url of
        Some err \<Rightarrow> (Inl err, hist)
      | None \<Rightarrow>
         (let req = \<lparr> URL = url, BasicAuth = None \<rparr> in
          case Do e hist req of
            Inl err \<Rightarrow> (Inl err, hist @ [req])
          | Inr body \<Rightarrow>
             ((case body of Inl err \<Rightarrow> Inl err | Inr bytes \<Rightarrow> Parse e bytes), hist @ [req])))"

text \<open>
  The second half of \<^verbatim>\<open>fetchPage\<close> (from \<^verbatim>\<open>authURL := ...\<close> to the end): the login page
  request, the authentication request, the token, and the fetch with the new token.
\<close>

definition login :: "env \<Rightarrow> fetcher \<Rightarrow> request list \<Rightarrow> (error + Node) \<times> fetcher \<times> request list" where
  "login e f hist =
     (let authURL = ''https://'' @ addr f @ ''/cmconnectionstatus.html?login_''
                      @ EncodeToString e (username f @ '':'' @ passwd f) in
      case NewRequestErr e (''https://'' @ addr f) of
        Some err \<Rightarrow> (Inl err, f, hist)
      | None \<Rightarrow>
         (let loginPageReq = \<lparr> URL = ''https://'' @ addr f, BasicAuth = None \<rparr>;
              hist1 = hist @ [loginPageReq] in
          case Do e hist loginPageReq of
            Inl err \<Rightarrow> (Inl err, f, hist1)
          | Inr loginPage \<Rightarrow>
             (case NewRequestErr e authURL of
                Some err \<Rightarrow> (Inl err, f, hist1)
              | None \<Rightarrow>
                 (let authReq = \<lparr> URL = authURL, BasicAuth = Some (username f, passwd f) \<rparr>;
                      hist2 = hist1 @ [authReq] in
                  case Do e hist1 authReq of
                    Inl err \<Rightarrow> (Inl err, f, hist2)
                  | Inr authResp \<Rightarrow>
                     (case authResp of
                        Inl err \<Rightarrow> (Inl err, f, hist2)
                      | Inr tok \<Rightarrow>
                         (let f' = f\<lparr> token := tok \<rparr> in
                          case fetchPageInner e f' hist2 of
                            (r, hist3) \<Rightarrow> (r, f', hist3)))))))"

definition fetchPage :: "env \<Rightarrow> fetcher \<Rightarrow> request list \<Rightarrow> (error + Node) \<times> fetcher \<times> request list" where
  "fetchPage e f hist =
     (if token f \<noteq> [] then
        (case fetchPageInner e f hist of
           (Inl err, hist1) \<Rightarrow> (Inl err, f, hist1)
         | (Inr page, hist1) \<Rightarrow>
            (if findTextNode page ''Login'' = None then (Inr page, f, hist1)
             else login e f hist1))
      else login e f hist)"

section \<open>Writing the metrics\<close>

text \<open>
  \<^verbatim>\<open>fmt.Fprintf(w, "<name>{channel_id=%q} %v\n", id, v)\<close>: the text appended to the sink,
  \<open>v\<close> being the value as \<^verbatim>\<open>%v\<close> prints it. The sink is the text written so far.
\<close>

definition metricLine :: "'f stdlib \<Rightarrow> string \<Rightarrow> string \<Rightarrow> string \<Rightarrow> string" where
  "metricLine lib name ident v = name @ ''{channel_id='' @ Quote lib ident @ ''} '' @ v @ [CHR 0x0A]"

fun writeDownstream :: "'f stdlib \<Rightarrow> string \<Rightarrow> 'f downstreamChannel list \<Rightarrow> string" where
  "writeDownstream lib w [] = w"
| "writeDownstream lib w (d # downstream) =
     (let w1 = w  @ metricLine lib ''downstream_bonded_channels_frequency_hz''
                      (downstreamChannel.ChannelID d) (FormatInt lib (downstreamChannel.FrequencyHz d));
          w2 = w1 @ metricLine lib ''downstream_bonded_channels_power_dbmv''
                      (downstreamChannel.ChannelID d) (FormatFloat lib (downstreamChannel.PowerdBmV d));
          w3 = w2 @ metricLine lib ''downstream_bonded_channels_snr_mer_db''
                      (downstreamChannel.ChannelID d) (FormatFloat lib (SNRMERdB d));
          w4 = w3 @ metricLine lib ''downstream_bonded_channels_corrected''
                      (downstreamChannel.ChannelID d) (FormatInt lib (Corrected d));
          w5 = w4 @ metricLine lib ''downstream_bonded_channels_uncorrectables''
                      (downstreamChannel.ChannelID d) (FormatInt lib (Uncorrectables d))
      in writeDownstream lib w5 downstream)"

fun writeUpstream :: "'f stdlib \<Rightarrow> string \<Rightarrow> 'f upstreamChannel list \<Rightarrow> string" where
  "writeUpstream lib w [] = w"
| "writeUpstream lib w (u # upstream) =
     (let w1 = w  @ metricLine lib ''upstream_bonded_channels_frequency_hz''
                      (upstreamChannel.ChannelID u) (FormatInt lib (upstreamChannel.FrequencyHz u));
          w2 = w1 @ metricLine lib ''upstream_bonded_channels_width_hz''
                      (upstreamChannel.ChannelID u) (FormatInt lib (WidthHz u));
          w3 = w2 @ metricLine lib ''upstream_bonded_channels_power_dbmv''
                      (upstreamChannel.ChannelID u) (FormatFloat lib (upstreamChannel.PowerdBmV u))
      in writeUpstream lib w3 upstream)"

text \<open>
  \<^verbatim>\<open>writeMetrics\<close>: the result is the error returned or the panic raised, if any, with
  the sink, the fetcher and the requests sent as they are then.
\<close>

definition writeMetrics ::
  "env \<Rightarrow> 'f stdlib \<Rightarrow> fetcher \<Rightarrow> request list \<Rightarrow> string
     \<Rightarrow> fault option \<times> string \<times> fetcher \<times> request list" where
  "writeMetrics e lib f hist w =
     (case fetchPage e f hist of
        (Inl err, f', hist') \<Rightarrow> (Some (Error err), w, f', hist')
      | (Inr page, f', hist') \<Rightarrow>
         (if findTextNode page ''Login'' \<noteq> None then
            (Some (Error (ErrorString ''Unable to get past login page'')), w, f', hist')
          else
            (case parseDownstream lib page of
               Inl flt \<Rightarrow> (Some flt, w, f', hist')
             | Inr downstream \<Rightarrow>
                (let w1 = writeDownstream lib w downstream in
                 case parseUpstream lib page of
                   Inl flt \<Rightarrow> (Some flt, w1, f', hist')
                 | Inr upstream \<Rightarrow> (None, writeUpstream lib w1 upstream, f', hist')))))"

section \<open>Notions of the specification\<close>

text \<open>
  The pointers to all nodes of a tree in depth-first order, a node before its children
  and its children before its later siblings (document order).
\<close>

fun preorder :: "Node \<Rightarrow> step list list" where
  "preorder nil = []"
| "preorder (Node t d a fc ns) =
     [] # map ((#) Child) (preorder fc) @ map ((#) Sibling) (preorder ns)"

text \<open>The pointer leads to a text node whose text is exactly \<open>text\<close>.\<close>

definition textNodeAt :: "Node \<Rightarrow> string \<Rightarrow> step list \<Rightarrow> bool" where
  "textNodeAt page text p \<longleftrightarrow> Type (deref page p) = TextNode \<and> Data (deref page p) = text"

text \<open>The rows that qualify as data rows among a node and its later siblings.\<close>

definition dataRows :: "Node \<Rightarrow> Node list" where
  "dataRows n = filter (\<lambda>r. isDataRow (Attr r)) (chain n)"

text \<open>The children of a row that count as cells: those whose data is \<^verbatim>\<open>td\<close>.\<close>

definition cellNodes :: "Node \<Rightarrow> Node list" where
  "cellNodes r = filter (\<lambda>c. Data c = ''td'') (chain (FirstChild r))"

text \<open>The column strings of a row: the data of the first child of each cell.\<close>

definition cells :: "Node \<Rightarrow> string list" where
  "cells r = map (\<lambda>c. Data (FirstChild c)) (cellNodes r)"

text \<open>Results in sequence: the first fault, or all the values.\<close>

fun collect :: "(fault + 'a) list \<Rightarrow> fault + 'a list" where
  "collect [] = Inr []"
| "collect (r # rs) = andThen r (\<lambda>v. andThen (collect rs) (\<lambda>vs. Inr (v # vs)))"

text \<open>The prefix of a cell text before its first space.\<close>

definition numericPrefix :: "string \<Rightarrow> string" where
  "numericPrefix s = takeWhile (\<lambda>c. c \<noteq> CHR '' '') s"

definition succeeds :: "'e + 'a \<Rightarrow> bool" where
  "succeeds r = (case r of Inl e \<Rightarrow> False | Inr v \<Rightarrow> True)"

text \<open>The node at \<open>q\<close> owns the node at \<open>p\<close>: the latter is one of the children of the former.\<close>

definition owns :: "Node \<Rightarrow> step list \<Rightarrow> step list \<Rightarrow> bool" where
  "owns page q p \<longleftrightarrow> deref page p \<in> set (chain (FirstChild (deref page q)))"

text \<open>
  The reading of the table lookup in the words of the specification: from the heading,
  three levels up is the table, and the rows scanned are the table's children.
\<close>

definition spec_tableRows :: "Node \<Rightarrow> string \<Rightarrow> fault + string list list" where
  "spec_tableRows page heading =
     (case findTextNode page heading of
        None \<Rightarrow> Inl (Error (ErrorString ''heading not found''))
      | Some tableTitle \<Rightarrow>
          andThen (ascend3 tableTitle) (\<lambda>table. scrapeTable (FirstChild (target page table))))"

text \<open>
  A downstream data row that matches the column schema: every cell has a text, there are
  the eight columns, columns 3 to 5 hold a number before the first space, and columns 6
  and 7 hold a number and nothing else.
\<close>

definition schemaDownstreamRow :: "'f stdlib \<Rightarrow> Node \<Rightarrow> bool" where
  "schemaDownstreamRow lib r \<longleftrightarrow>
     list_all (\<lambda>c. FirstChild c \<noteq> nil) (cellNodes r) \<and>
     8 \<le> length (cells r) \<and>
     succeeds (ParseInt lib (numericPrefix (cells r ! 3))) \<and>
     succeeds (ParseFloat lib (numericPrefix (cells r ! 4))) \<and>
     succeeds (ParseFloat lib (numericPrefix (cells r ! 5))) \<and>
     CHR '' '' \<notin> set (cells r ! 6) \<and> succeeds (Atoi lib (cells r ! 6)) \<and>
     CHR '' '' \<notin> set (cells r ! 7) \<and> succeeds (Atoi lib (cells r ! 7))"

text \<open>
  A well-formed page for the downstream table, in the words of the specification: the
  first text node in document order that equals the heading has three ancestors (cell,
  row, table), and every child of the third that qualifies as a data row matches the
  schema.
\<close>

definition schemaDownstreamPage :: "'f stdlib \<Rightarrow> Node \<Rightarrow> bool" where
  "schemaDownstreamPage lib page =
     (case find (textNodeAt page ''Downstream Bonded Channels'') (preorder page) of
        None \<Rightarrow> False
      | Some heading \<Rightarrow>
         (case Parent heading of
            None \<Rightarrow> False
          | Some cell \<Rightarrow>
             (case Parent cell of
                None \<Rightarrow> False
              | Some row \<Rightarrow>
                 (case Parent row of
                    None \<Rightarrow> False
                  | Some table \<Rightarrow>
                     list_all (schemaDownstreamRow lib)
                       (dataRows (FirstChild (deref page table)))))))"

text \<open>
  Some numeric column of an extracted row is there and cannot be converted, for the
  conversion the parser applies to that column.
\<close>

definition badDownstreamRow :: "'f stdlib \<Rightarrow> string list \<Rightarrow> bool" where
  "badDownstreamRow lib row \<longleftrightarrow>
     (3 < length row \<and> \<not> succeeds (ParseInt lib (numericPrefix (row ! 3)))) \<or>
     (4 < length row \<and> \<not> succeeds (ParseFloat lib (numericPrefix (row ! 4)))) \<or>
     (5 < length row \<and> \<not> succeeds (ParseFloat lib (numericPrefix (row ! 5)))) \<or>
     (6 < length row \<and> \<not> succeeds (Atoi lib (row ! 6))) \<or>
     (7 < length row \<and> \<not> succeeds (Atoi lib (row ! 7)))"

definition badUpstreamRow :: "'f stdlib \<Rightarrow> string list \<Rightarrow> bool" where
  "badUpstreamRow lib row \<longleftrightarrow>
     (4 < length row \<and> \<not> succeeds (ParseInt lib (numericPrefix (row ! 4)))) \<or>
     (5 < length row \<and> \<not> succeeds (ParseInt lib (numericPrefix (row ! 5)))) \<or>
     (6 < length row \<and> \<not> succeeds (ParseFloat lib (numericPrefix (row ! 6))))"

text \<open>The error of a conversion, if it fails.\<close>

definition failure :: "NumError + 'a \<Rightarrow> NumError list" where
  "failure r = (case r of Inl e \<Rightarrow> [e] | Inr v \<Rightarrow> [])"

text \<open>
  The conversion errors of the numeric columns that a row has, in the order in which the
  parser reads the columns: 3, 4, 5, 6, 7 downstream and 4, 5, 6 upstream.
\<close>

definition downstreamErrors :: "'f stdlib \<Rightarrow> string list \<Rightarrow> NumError list" where
  "downstreamErrors lib row =
     (if 3 < length row then failure (ParseInt lib (numericPrefix (row ! 3))) else []) @
     (if 4 < length row then failure (ParseFloat lib (numericPrefix (row ! 4))) else []) @
     (if 5 < length row then failure (ParseFloat lib (numericPrefix (row ! 5))) else []) @
     (if 6 < length row then failure (Atoi lib (row ! 6)) else []) @
     (if 7 < length row then failure (Atoi lib (row ! 7)) else [])"

definition upstreamErrors :: "'f stdlib \<Rightarrow> string list \<Rightarrow> NumError list" where
  "upstreamErrors lib row =
     (if 4 < length row then failure (ParseInt lib (numericPrefix (row ! 4))) else []) @
     (if 5 < length row then failure (ParseInt lib (numericPrefix (row ! 5))) else []) @
     (if 6 < length row then failure (ParseFloat lib (numericPrefix (row ! 6))) else [])"

text \<open>The requests of \<^verbatim>\<open>fetchPage\<close>.\<close>

definition pageReq :: "fetcher \<Rightarrow> string \<Rightarrow> request" where
  "pageReq f tok =
     \<lparr> URL = ''https://'' @ addr f @ ''/cmconnectionstatus.html?ct_'' @ tok, BasicAuth = None \<rparr>"

definition loginPageReq :: "fetcher \<Rightarrow> request" where
  "loginPageReq f = \<lparr> URL = ''https://'' @ addr f, BasicAuth = None \<rparr>"

definition authReq :: "env \<Rightarrow> fetcher \<Rightarrow> request" where
  "authReq e f =
     \<lparr> URL = ''https://'' @ addr f @ ''/cmconnectionstatus.html?login_''
               @ EncodeToString e (username f @ '':'' @ passwd f),
       BasicAuth = Some (username f, passwd f) \<rparr>"

section \<open>Examples\<close>

subsection \<open>An instance of the library functions\<close>

text \<open>
  Decimal integers as \<^verbatim>\<open>strconv\<close> reads them on a 64-bit platform: an optional sign,
  then digits, a syntax error at the first other byte and a range error beyond 64 bits.
\<close>

definition digit :: "char \<Rightarrow> nat option" where
  "digit = map_of
     [(CHR ''0'', 0), (CHR ''1'', 1), (CHR ''2'', 2), (CHR ''3'', 3), (CHR ''4'', 4),
      (CHR ''5'', 5), (CHR ''6'', 6), (CHR ''7'', 7), (CHR ''8'', 8), (CHR ''9'', 9)]"

fun parseUintLoop :: "nat \<Rightarrow> string \<Rightarrow> NumErrKind + nat" where
  "parseUintLoop n [] = Inr n"
| "parseUintLoop n (c # s) =
     (case digit c of
        None \<Rightarrow> Inl ErrSyntax
      | Some d \<Rightarrow>
         (if n \<ge> 1844674407370955162 then Inl ErrRange
          else if n * 10 + d > 18446744073709551615 then Inl ErrRange
          else parseUintLoop (n * 10 + d) s))"

definition parseDecimal :: "string \<Rightarrow> string \<Rightarrow> NumError + int" where
  "parseDecimal fn s =
     (case s of
        [] \<Rightarrow> Inl (NumError fn s ErrSyntax)
      | c # s1 \<Rightarrow>
         (let neg = (c = CHR ''-'');
              ds = (if c = CHR ''+'' \<or> c = CHR ''-'' then s1 else s) in
          if ds = [] then Inl (NumError fn s ErrSyntax)
          else (case parseUintLoop 0 ds of
                  Inl k \<Rightarrow> Inl (NumError fn s k)
                | Inr un \<Rightarrow>
                   (if \<not> neg \<and> un \<ge> 9223372036854775808 then Inl (NumError fn s ErrRange)
                    else if neg \<and> un > 9223372036854775808 then Inl (NumError fn s ErrRange)
                    else Inr (if neg then - int un else int un)))))"

text \<open>
  A stand-in for \<^verbatim>\<open>float64\<close>, for running examples only: a decimal literal (sign, digits,
  an optional fraction) is kept as its text, and printed as that text.
\<close>

definition decimalLiteral :: "string \<Rightarrow> bool" where
  "decimalLiteral s =
     (let body = (case s of [] \<Rightarrow> [] | c # s1 \<Rightarrow> (if c = CHR ''+'' \<or> c = CHR ''-'' then s1 else s));
          whole = takeWhile (\<lambda>c. digit c \<noteq> None) body;
          rest = dropWhile (\<lambda>c. digit c \<noteq> None) body
      in whole \<noteq> [] \<and>
         (case rest of
            [] \<Rightarrow> True
          | c # frac \<Rightarrow> c = CHR ''.'' \<and> frac \<noteq> [] \<and> list_all (\<lambda>c. digit c \<noteq> None) frac))"

definition parseLiteral :: "string \<Rightarrow> NumError + string" where
  "parseLiteral s = (if decimalLiteral s then Inr s else Inl (NumError ''ParseFloat'' s ErrSyntax))"

text \<open>
  \<^verbatim>\<open>%q\<close> on printable ASCII: double quotes around the text, a backslash before a double
  quote and before a backslash.
\<close>

definition quoteASCII :: "string \<Rightarrow> string" where
  "quoteASCII s =
     CHR 0x22 # concat (map (\<lambda>c. if c = CHR 0x22 \<or> c = CHR 0x5C then [CHR 0x5C, c] else [c]) s)
       @ [CHR 0x22]"

text \<open>\<^verbatim>\<open>%v\<close> on an integer: its decimal digits, after a minus sign when negative.\<close>

definition digitChar :: "nat \<Rightarrow> char" where
  "digitChar d = ''0123456789'' ! d"

function natDigits :: "nat \<Rightarrow> string" where
  "natDigits n = (if n < 10 then [digitChar n] else natDigits (n div 10) @ [digitChar (n mod 10)])"
  by pat_completeness auto
termination
  by (relation "measure id") auto

definition formatDecimal :: "int \<Rightarrow> string" where
  "formatDecimal i = (if i < 0 then CHR ''-'' # natDigits (nat (- i)) else natDigits (nat i))"

definition exLib :: "string stdlib" where
  "exLib = \<lparr> ParseInt = parseDecimal ''ParseInt'', Atoi = parseDecimal ''Atoi'',
             ParseFloat = parseLiteral, Quote = quoteASCII,
             FormatInt = formatDecimal, FormatFloat = (\<lambda>s. s) \<rparr>"

subsection \<open>Example pages\<close>

definition textNode :: "string \<Rightarrow> Node \<Rightarrow> Node" where
  "textNode s next = Node TextNode s [] nil next"

definition el :: "string \<Rightarrow> Attribute list \<Rightarrow> Node \<Rightarrow> Node \<Rightarrow> Node" where
  "el tag attrs child next = Node ElementNode tag attrs child next"

definition td :: "string \<Rightarrow> Node \<Rightarrow> Node" where
  "td s next = el ''td'' [] (textNode s nil) next"

definition alignLeft :: "Attribute list" where
  "alignLeft = [\<lparr> Namespace = [], Key = ''align'', Val = ''left'' \<rparr>]"

text \<open>The heading row of a table of the status page: \<^verbatim>\<open><tr><th><strong>heading\<close>.\<close>

definition headingRow :: "string \<Rightarrow> Node \<Rightarrow> Node" where
  "headingRow heading next =
     el ''tr'' [] (el ''th'' [] (el ''strong'' [] (textNode heading nil) nil) nil) next"

definition downRow1 :: "Node \<Rightarrow> Node" where
  "downRow1 next =
     el ''tr'' alignLeft
       (td ''1'' (td ''Locked'' (td ''QAM256'' (td ''543000000 Hz'' (td ''-2.3 dBmV''
       (td ''39.5 dB'' (td ''12'' (td ''0'' nil)))))))) next"

definition downRow2 :: "Node \<Rightarrow> Node" where
  "downRow2 next =
     el ''tr'' alignLeft
       (td ''2'' (textNode [CHR 0x0A] (td ''Locked'' (td ''QAM256'' (td ''549000000 Hz''
       (td ''-2.1 dBmV'' (td ''40.1 dB'' (td ''7'' (td ''3'' nil))))))))) next"

definition upRow1 :: "Node \<Rightarrow> Node" where
  "upRow1 next =
     el ''tr'' alignLeft
       (td ''1'' (td ''4'' (td ''Locked'' (td ''SC-QAM'' (td ''22800000 Hz''
       (td ''6400000 Hz'' (td ''44.0 dBmV'' nil))))))) next"

definition upTable :: "Node" where
  "upTable =
     el ''table'' []
       (el ''tbody'' [] (headingRow ''Upstream Bonded Channels'' (upRow1 nil)) nil) nil"

definition downTable :: "Node \<Rightarrow> Node" where
  "downTable next =
     el ''table'' []
       (el ''tbody'' []
          (headingRow ''Downstream Bonded Channels'' (textNode [CHR 0x0A] (downRow1 (downRow2 nil))))
          nil) next"

text \<open>A status page as \<^verbatim>\<open>html.Parse\<close> builds it, with two downstream rows and one upstream row.\<close>

definition statusPage :: "Node" where
  "statusPage =
     Node DocumentNode [] []
       (el ''html'' [] (el ''head'' [] nil (el ''body'' [] (downTable upTable) nil)) nil) nil"

definition loginPage :: "Node" where
  "loginPage =
     Node DocumentNode [] []
       (el ''html'' [] (el ''head'' [] nil (el ''body'' [] (el ''h1'' [] (textNode ''Login'' nil) nil) nil)) nil)
       nil"

text \<open>
  The layout the specification describes (text, cell, row, table): three levels above
  the heading is the table, and the data row is a child of the table.
\<close>

definition tablePage :: "Node" where
  "tablePage =
     el ''table'' []
       (el ''tr'' [] (el ''th'' [] (textNode ''Downstream Bonded Channels'' nil) nil) (downRow1 nil)) nil"

text \<open>A data row with three cells only.\<close>

definition shortRow :: "Node \<Rightarrow> Node" where
  "shortRow next = el ''tr'' alignLeft (td ''1'' (td ''Locked'' (td ''QAM256'' nil))) next"

definition shortRowPage :: "Node" where
  "shortRowPage =
     el ''table'' [] (el ''tbody'' [] (headingRow ''Downstream Bonded Channels'' (shortRow nil)) nil) nil"

text \<open>A data row whose frequency is not a number.\<close>

definition badRow :: "Node \<Rightarrow> Node" where
  "badRow next =
     el ''tr'' alignLeft
       (td ''3'' (td ''Locked'' (td ''QAM256'' (td ''n/a Hz'' (td ''-2.3 dBmV''
       (td ''39.5 dB'' (td ''12'' (td ''0'' nil)))))))) next"

definition badRowPage :: "Node" where
  "badRowPage =
     el ''table'' []
       (el ''tbody'' [] (headingRow ''Downstream Bonded Channels'' (downRow1 (badRow nil))) nil) nil"

definition shortThenBadPage :: "Node" where
  "shortThenBadPage =
     el ''table'' []
       (el ''tbody'' [] (headingRow ''Downstream Bonded Channels'' (shortRow (badRow nil))) nil) nil"

text \<open>Data rows with an empty cell \<^verbatim>\<open><td></td>\<close>, and with a comment \<^verbatim>\<open><!--td-->\<close>.\<close>

definition emptyCellRow :: "Node" where
  "emptyCellRow = el ''tr'' alignLeft (td ''1'' (el ''td'' [] nil (td ''QAM256'' nil))) nil"

definition commentRow :: "Node" where
  "commentRow = el ''tr'' alignLeft (td ''1'' (Node CommentNode ''td'' [] nil (td ''QAM256'' nil))) nil"

subsection \<open>Example environments\<close>

definition exFetcher :: "fetcher" where
  "exFetcher = \<lparr> addr = ''192.168.100.1'', username = ''admin'', passwd = ''pw'', token = ''old'' \<rparr>"

text \<open>
  A modem that accepts the token \<^verbatim>\<open>new\<close> only and hands it out on authentication;
  \<^verbatim>\<open>YWRtaW46cHc=\<close> is the encoding of \<^verbatim>\<open>admin:pw\<close>.
\<close>

definition exEnv :: "env" where
  "exEnv =
     \<lparr> NewRequestErr = (\<lambda>url. None),
       Do = (\<lambda>hist req.
               if URL req = ''https://192.168.100.1/cmconnectionstatus.html?ct_new''
                 then Inr (Inr ''status'')
               else if URL req = ''https://192.168.100.1/cmconnectionstatus.html?login_YWRtaW46cHc=''
                 then Inr (Inr ''new'')
               else Inr (Inr ''login'')),
       Parse = (\<lambda>bytes. if bytes = ''status'' then Inr statusPage else Inr loginPage),
       EncodeToString = (\<lambda>s. ''YWRtaW46cHc='') \<rparr>"

text \<open>The same modem, unreachable for the login page request.\<close>

definition downEnv :: "env" where
  "downEnv =
     exEnv\<lparr> Do := (\<lambda>hist req.
                if URL req = ''https://192.168.100.1''
                  then Inl (TransportError ''connection refused'')
                else Do exEnv hist req) \<rparr>"

text \<open>A modem that answers every request with the login page.\<close>

definition lockedEnv :: "env" where
  "lockedEnv = exEnv\<lparr> Parse := (\<lambda>bytes. Inr loginPage) \<rparr>"

text \<open>An upstream table whose only data row has four cells.\<close>

definition shortUpstreamPage :: "Node" where
  "shortUpstreamPage =
     el ''table'' []
       (el ''tbody'' []
          (headingRow ''Upstream Bonded Channels''
             (el ''tr'' alignLeft (td ''1'' (td ''4'' (td ''Locked'' (td ''SC-QAM'' nil)))) nil))
          nil) nil"

text \<open>An upstream table whose data row has a width that is not a number.\<close>

definition badUpstreamPage :: "Node" where
  "badUpstreamPage =
     el ''table'' []
       (el ''tbody'' []
          (headingRow ''Upstream Bonded Channels''
             (el ''tr'' alignLeft
                (td ''1'' (td ''4'' (td ''Locked'' (td ''SC-QAM'' (td ''22800000 Hz''
                (td ''wide'' (td ''44.0 dBmV'' nil))))))) nil))
          nil) nil"

text \<open>A status page with one downstream row and an upstream table without data rows.\<close>

definition singleRowPage :: "Node" where
  "singleRowPage =
     Node DocumentNode [] []
       (el ''html'' []
          (el ''head'' [] nil
             (el ''body'' []
                (el ''table'' []
                   (el ''tbody'' [] (headingRow ''Downstream Bonded Channels'' (downRow1 nil)) nil)
                   (el ''table'' []
                      (el ''tbody'' [] (headingRow ''Upstream Bonded Channels'' nil) nil) nil))
                nil))
          nil) nil"

text \<open>A modem that answers every request with that page.\<close>

definition singleRowEnv :: "env" where
  "singleRowEnv = exEnv\<lparr> Parse := (\<lambda>bytes. Inr singleRowPage) \<rparr>"

text \<open>
  A page in which the heading text is a child of the heading cell: three levels above the
  heading is the table body, and the data rows are its children.
\<close>

definition tbodyPage :: "Node" where
  "tbodyPage =
     Node DocumentNode [] []
       (el ''html'' []
          (el ''head'' [] nil
             (el ''body'' []
                (el ''table'' []
                   (el ''tbody'' []
                      (el ''tr'' []
                         (el ''th'' [] (textNode ''Downstream Bonded Channels'' nil) nil)
                         (downRow1 (downRow2 nil)))
                      nil)
                   nil)
                nil))
          nil) nil"

text \<open>A data row of seven columns, all of them convertible.\<close>

definition sevenColumnPage :: "Node" where
  "sevenColumnPage =
     el ''table'' []
       (el ''tbody'' []
          (headingRow ''Downstream Bonded Channels''
             (el ''tr'' alignLeft
                (td ''1'' (td ''Locked'' (td ''QAM256'' (td ''543000000 Hz'' (td ''-2.3 dBmV''
                (td ''39.5 dB'' (td ''12'' nil))))))) nil))
          nil) nil"

text \<open>A data row whose last two columns both fail to convert.\<close>

definition twoBadColumnsPage :: "Node" where
  "twoBadColumnsPage =
     el ''table'' []
       (el ''tbody'' []
          (headingRow ''Downstream Bonded Channels''
             (el ''tr'' alignLeft
                (td ''1'' (td ''Locked'' (td ''QAM256'' (td ''543000000 Hz'' (td ''-2.3 dBmV''
                (td ''39.5 dB'' (td ''x'' (td ''y'' nil)))))))) nil))
          nil) nil"

text \<open>The example modem, unreachable for the authentication request.\<close>

definition authDownEnv :: "env" where
  "authDownEnv =
     exEnv\<lparr> Do := (\<lambda>hist req.
                if URL req = ''https://192.168.100.1/cmconnectionstatus.html?login_YWRtaW46cHc=''
                  then Inl (TransportError ''timeout'')
                else Do exEnv hist req) \<rparr>"

section \<open>Auxiliary lemmas\<close>

lemma andThen_Inl [simp]: "andThen (Inl e) k = Inl e"
  by (simp add: andThen_def)

lemma andThen_Inr [simp]: "andThen (Inr v) k = k v"
  by (simp add: andThen_def)

lemma andThen_eq_Inr: "andThen r k = Inr y \<longleftrightarrow> (\<exists>v. r = Inr v \<and> k v = Inr y)"
  by (cases r) simp_all

lemma Split_nonempty: "Split s sep \<noteq> []"
  by (induction s) (auto split: list.splits)

lemma hd_Split: "hd (Split s sep) = takeWhile (\<lambda>c. c \<noteq> sep) s"
  using Split_nonempty [of _ sep]
  by (induction s) (auto split: list.splits)

lemma find_map_step:
  "find P (map ((#) s) ps) = map_option ((#) s) (find (\<lambda>p. P (s # p)) ps)"
  by (induction ps) simp_all

lemma find_append_case:
  "find P (xs @ ys) = (case find P xs of Some x \<Rightarrow> Some x | None \<Rightarrow> find P ys)"
  by (induction xs) simp_all

lemma textNodeAt_Nil [simp]:
  "textNodeAt (Node t d a fc ns) text [] \<longleftrightarrow> t = TextNode \<and> d = text"
  by (simp add: textNodeAt_def)

lemma textNodeAt_Child [simp]:
  "textNodeAt (Node t d a fc ns) text (Child # p) = textNodeAt fc text p"
  by (simp add: textNodeAt_def)

lemma textNodeAt_Sibling [simp]:
  "textNodeAt (Node t d a fc ns) text (Sibling # p) = textNodeAt ns text p"
  by (simp add: textNodeAt_def)

lemma findTextNode_find:
  "findTextNode page text = find (textNodeAt page text) (preorder page)"
proof (induction page)
  case nil
  show ?case by simp
next
  case (Node t d a fc ns)
  show ?case
  proof (cases "t = TextNode \<and> d = text")
    case True
    then show ?thesis by simp
  next
    case False
    then show ?thesis
      using Node.IH
      by (simp add: find_append_case find_map_step split: option.splits)
  qed
qed

lemma findTextNode_None_iff:
  "findTextNode page text = None \<longleftrightarrow> \<not> list_ex (textNodeAt page text) (preorder page)"
  by (auto simp: findTextNode_find find_None_iff list_ex_iff)

lemma findTextNode_Some_textNodeAt:
  "findTextNode page text = Some p \<Longrightarrow> textNodeAt page text p \<and> p \<in> set (preorder page)"
  by (auto simp: findTextNode_find find_Some_iff)


lemma scrapeColumns_Inr_iff:
  "(\<exists>vals. scrapeColumns n = Inr vals) \<longleftrightarrow>
     list_all (\<lambda>c. FirstChild c \<noteq> nil) (filter (\<lambda>c. Data c = ''td'') (chain n))"
  by (induction n) (auto simp: andThen_eq_Inr split: Node.splits)

lemma scrapeColumns_value:
  "scrapeColumns n = Inr vals \<Longrightarrow>
     vals = map (\<lambda>c. Data (FirstChild c)) (filter (\<lambda>c. Data c = ''td'') (chain n))"
  by (induction n arbitrary: vals) (auto simp: andThen_eq_Inr split: Node.splits if_splits)

lemma scrapeColumns_fault:
  "scrapeColumns n = Inl flt \<Longrightarrow> flt = Panic NilDereference"
  by (induction n) (auto simp: andThen_def split: Node.splits if_splits sum.splits)

lemma scrapeTable_collect:
  "scrapeTable n = collect (map (\<lambda>r. scrapeColumns (FirstChild r)) (dataRows n))"
  by (induction n) (simp_all add: dataRows_def)

lemma scrapeTable_fault:
  "scrapeTable n = Inl flt \<Longrightarrow> flt = Panic NilDereference"
  by (induction n) (auto simp: andThen_def split: if_splits sum.splits dest: scrapeColumns_fault)

lemma collect_Inr_iff:
  "collect rs = Inr vs \<longleftrightarrow> rs = map Inr vs"
  by (induction rs arbitrary: vs) (auto simp: andThen_eq_Inr)


lemma andThen_eq_Inl:
  "andThen r k = Inl flt \<longleftrightarrow> r = Inl flt \<or> (\<exists>v. r = Inr v \<and> k v = Inl flt)"
  by (cases r) simp_all

lemma index_fault:
  "index xs i = Inl flt \<longleftrightarrow> \<not> i < length xs \<and> flt = Panic (IndexOutOfRange i (length xs))"
  by (auto simp: index_def)

lemma index_Inr: "index xs i = Inr v \<longleftrightarrow> i < length xs \<and> v = xs ! i"
  by (auto simp: index_def)

lemma splitField_Inr: "splitField row i = Inr v \<longleftrightarrow> i < length row \<and> v = numericPrefix (row ! i)"
  using Split_nonempty [of "row ! i" "CHR '' ''"] hd_Split [of "row ! i" "CHR '' ''"]
  by (auto simp: splitField_def andThen_eq_Inr index_Inr numericPrefix_def hd_conv_nth)

lemma splitField_fault:
  "splitField row i = Inl flt \<longleftrightarrow> \<not> i < length row \<and> flt = Panic (IndexOutOfRange i (length row))"
  using Split_nonempty [of "row ! i" "CHR '' ''"]
  by (auto simp: splitField_def andThen_eq_Inl index_def)

lemma fromErr_Inr: "fromErr r = Inr v \<longleftrightarrow> r = Inr v"
  by (cases r) (simp_all add: fromErr_def)

lemma fromErr_fault: "fromErr r = Inl flt \<longleftrightarrow> (\<exists>e. r = Inl e \<and> flt = Error (StrconvError e))"
  by (cases r) (auto simp: fromErr_def)

lemma downstreamRow_Inr:
  "downstreamRow lib row = Inr d \<longleftrightarrow>
     8 \<le> length row \<and>
     ParseInt lib (numericPrefix (row ! 3)) = Inr (downstreamChannel.FrequencyHz d) \<and>
     ParseFloat lib (numericPrefix (row ! 4)) = Inr (downstreamChannel.PowerdBmV d) \<and>
     ParseFloat lib (numericPrefix (row ! 5)) = Inr (SNRMERdB d) \<and>
     Atoi lib (row ! 6) = Inr (Corrected d) \<and>
     Atoi lib (row ! 7) = Inr (Uncorrectables d) \<and>
     downstreamChannel.ChannelID d = row ! 0 \<and>
     downstreamChannel.LockStatus d = row ! 1 \<and>
     Modulation d = row ! 2"
  unfolding downstreamRow_def andThen_eq_Inr splitField_Inr fromErr_Inr index_Inr
  by (cases d) auto


lemma upstreamRow_Inr:
  "upstreamRow lib row = Inr u \<longleftrightarrow>
     7 \<le> length row \<and>
     ParseInt lib (numericPrefix (row ! 4)) = Inr (upstreamChannel.FrequencyHz u) \<and>
     ParseInt lib (numericPrefix (row ! 5)) = Inr (WidthHz u) \<and>
     ParseFloat lib (numericPrefix (row ! 6)) = Inr (upstreamChannel.PowerdBmV u) \<and>
     Channel u = row ! 0 \<and>
     upstreamChannel.ChannelID u = row ! 1 \<and>
     upstreamChannel.LockStatus u = row ! 2 \<and>
     ChannelType u = row ! 3"
  unfolding upstreamRow_def andThen_eq_Inr splitField_Inr fromErr_Inr index_Inr
  by (cases u) auto

lemma downstreamRow_fault:
  "downstreamRow lib row = Inl flt \<Longrightarrow>
     (\<exists>i. flt = Panic (IndexOutOfRange i (length row)) \<and> length row \<le> i \<and> i < 8) \<or>
     (\<exists>e. flt = Error (StrconvError e) \<and> e \<in> set (downstreamErrors lib row))"
  unfolding downstreamRow_def andThen_eq_Inl splitField_fault splitField_Inr fromErr_fault
    fromErr_Inr index_Inr index_fault
  by (auto simp: downstreamErrors_def failure_def)

lemma upstreamRow_fault:
  "upstreamRow lib row = Inl flt \<Longrightarrow>
     (\<exists>i. flt = Panic (IndexOutOfRange i (length row)) \<and> length row \<le> i \<and> i < 7) \<or>
     (\<exists>e. flt = Error (StrconvError e) \<and> e \<in> set (upstreamErrors lib row))"
  unfolding upstreamRow_def andThen_eq_Inl splitField_fault splitField_Inr fromErr_fault
    fromErr_Inr index_Inr index_fault
  by (auto simp: upstreamErrors_def failure_def)

lemma collect_fault_iff:
  "collect rs = Inl flt \<longleftrightarrow>
     (\<exists>i < length rs. rs ! i = Inl flt \<and> (\<forall>j < i. succeeds (rs ! j)))"
proof (induction rs)
  case Nil
  show ?case by simp
next
  case (Cons r rs)
  show ?case
  proof (cases r)
    case (Inl e)
    then show ?thesis
      by (auto simp: succeeds_def intro: exI [of _ 0])
         (metis (no_types, lifting) Inl_Inr_False Inl_inject not_gr_zero nth_Cons_0 old.sum.simps(5) zero_less_Suc)
  next
    case (Inr v)
    show ?thesis
    proof
      assume "collect (r # rs) = Inl flt"
      with Inr have "collect rs = Inl flt"
        by (auto simp: andThen_eq_Inl)
      with Cons.IH obtain i where i: "i < length rs" "rs ! i = Inl flt" "\<forall>j < i. succeeds (rs ! j)"
        by blast
      have "\<forall>j < Suc i. succeeds ((r # rs) ! j)"
        using i(3) Inr by (auto simp: nth_Cons' succeeds_def)
      with i(1,2) show "\<exists>i < length (r # rs). (r # rs) ! i = Inl flt \<and> (\<forall>j < i. succeeds ((r # rs) ! j))"
        by (intro exI [of _ "Suc i"]) simp
    next
      assume "\<exists>i < length (r # rs). (r # rs) ! i = Inl flt \<and> (\<forall>j < i. succeeds ((r # rs) ! j))"
      then obtain i where i: "i < length (r # rs)" "(r # rs) ! i = Inl flt"
        "\<forall>j < i. succeeds ((r # rs) ! j)" by blast
      from i(2) Inr obtain k where k: "i = Suc k" by (cases i) auto
      have "\<forall>j < k. succeeds (rs ! j)"
      proof (intro allI impI)
        fix j assume "j < k"
        then have "Suc j < i" using k by simp
        with i(3) have "succeeds ((r # rs) ! Suc j)" by blast
        then show "succeeds (rs ! j)" by simp
      qed
      with i(1,2) k have "collect rs = Inl flt"
        using Cons.IH by auto
      with Inr show "collect (r # rs) = Inl flt" by simp
    qed
  qed
qed

lemma downstreamRows_collect: "downstreamRows lib rows = collect (map (downstreamRow lib) rows)"
  by (induction rows) simp_all

lemma upstreamRows_collect: "upstreamRows lib rows = collect (map (upstreamRow lib) rows)"
  by (induction rows) simp_all

lemma downstreamRows_Inr:
  "downstreamRows lib rows = Inr data \<longleftrightarrow>
     length data = length rows \<and> (\<forall>i < length rows. downstreamRow lib (rows ! i) = Inr (data ! i))"
  by (auto simp: downstreamRows_collect collect_Inr_iff list_eq_iff_nth_eq)

lemma upstreamRows_Inr:
  "upstreamRows lib rows = Inr data \<longleftrightarrow>
     length data = length rows \<and> (\<forall>i < length rows. upstreamRow lib (rows ! i) = Inr (data ! i))"
  by (auto simp: upstreamRows_collect collect_Inr_iff list_eq_iff_nth_eq)

lemma downstreamRows_fault:
  "downstreamRows lib rows = Inl flt \<longleftrightarrow>
     (\<exists>i < length rows. downstreamRow lib (rows ! i) = Inl flt \<and>
        (\<forall>j < i. succeeds (downstreamRow lib (rows ! j))))"
  by (auto simp: downstreamRows_collect collect_fault_iff)

lemma upstreamRows_fault:
  "upstreamRows lib rows = Inl flt \<longleftrightarrow>
     (\<exists>i < length rows. upstreamRow lib (rows ! i) = Inl flt \<and>
        (\<forall>j < i. succeeds (upstreamRow lib (rows ! j))))"
  by (auto simp: upstreamRows_collect collect_fault_iff)

lemma ascend3_fault: "ascend3 p = Inl flt \<Longrightarrow> flt = Panic NilDereference"
  by (auto simp: ascend3_def split: option.splits)

lemma parseDownstream_found:
  "findTextNode page ''Downstream Bonded Channels'' = Some p \<Longrightarrow>
     parseDownstream lib page =
       andThen (ascend3 p) (\<lambda>q. andThen (scrapeTable (target page q)) (downstreamRows lib))"
  by (simp add: parseDownstream_def)

lemma parseUpstream_found:
  "findTextNode page ''Upstream Bonded Channels'' = Some p \<Longrightarrow>
     parseUpstream lib page =
       andThen (ascend3 p) (\<lambda>q. andThen (scrapeTable (target page q)) (upstreamRows lib))"
  by (simp add: parseUpstream_def)

lemma parseDownstream_found_fault:
  assumes "findTextNode page ''Downstream Bonded Channels'' = Some p"
    and "parseDownstream lib page = Inl flt"
  shows "(\<exists>pn. flt = Panic pn) \<or> (\<exists>e. flt = Error (StrconvError e))"
  using assms(2) unfolding parseDownstream_found [OF assms(1)] andThen_eq_Inl downstreamRows_fault
  by (auto dest: ascend3_fault scrapeTable_fault downstreamRow_fault)

lemma parseUpstream_found_fault:
  assumes "findTextNode page ''Upstream Bonded Channels'' = Some p"
    and "parseUpstream lib page = Inl flt"
  shows "(\<exists>pn. flt = Panic pn) \<or> (\<exists>e. flt = Error (StrconvError e))"
  using assms(2) unfolding parseUpstream_found [OF assms(1)] andThen_eq_Inl upstreamRows_fault
  by (auto dest: ascend3_fault scrapeTable_fault upstreamRow_fault)

section \<open>The search for the heading\<close>

text \<open>
  C7: for every markup tree and target string, \<open>findTextNode\<close> returns the first text
  node whose text equals the target in depth-first order, children before siblings, and
  returns nothing exactly when the tree has no such text node.
\<close>

theorem findTextNode_first_in_document_order:
  "findTextNode page text = find (textNodeAt page text) (preorder page) \<and>
   (findTextNode page text = None \<longleftrightarrow> \<not> list_ex (textNodeAt page text) (preorder page))"
  using findTextNode_find findTextNode_None_iff by blast

text \<open>
  C5: \<open>parseDownstream\<close> (\<open>parseUpstream\<close>) fails with the not-found error exactly when
  the page has no text node equal to the heading, whatever else the page holds.
\<close>

theorem parse_not_found_iff:
  "(parseDownstream lib page = Inl (Error (ErrorString ''unable to find downstream bonded channels table''))
      \<longleftrightarrow> \<not> list_ex (textNodeAt page ''Downstream Bonded Channels'') (preorder page)) \<and>
   (parseUpstream lib page = Inl (Error (ErrorString ''unable to find upstream bonded channels table''))
      \<longleftrightarrow> \<not> list_ex (textNodeAt page ''Upstream Bonded Channels'') (preorder page))"
proof -
  have d: "parseDownstream lib page = Inl (Error (ErrorString ''unable to find downstream bonded channels table''))
      \<longleftrightarrow> findTextNode page ''Downstream Bonded Channels'' = None"
  proof (cases "findTextNode page ''Downstream Bonded Channels''")
    case None
    then show ?thesis by (simp add: parseDownstream_def)
  next
    case (Some p)
    then show ?thesis using parseDownstream_found_fault [OF Some] by fastforce
  qed
  have u: "parseUpstream lib page = Inl (Error (ErrorString ''unable to find upstream bonded channels table''))
      \<longleftrightarrow> findTextNode page ''Upstream Bonded Channels'' = None"
  proof (cases "findTextNode page ''Upstream Bonded Channels''")
    case None
    then show ?thesis by (simp add: parseUpstream_def)
  next
    case (Some p)
    then show ?thesis using parseUpstream_found_fault [OF Some] by fastforce
  qed
  show ?thesis
    unfolding d u findTextNode_None_iff by simp
qed

section \<open>Extraction of the cells\<close>

lemmas page_defs = tbodyPage_def sevenColumnPage_def twoBadColumnsPage_def el_def td_def textNode_def alignLeft_def headingRow_def downRow1_def downRow2_def
  upRow1_def upTable_def downTable_def statusPage_def loginPage_def tablePage_def shortRow_def
  shortRowPage_def badRow_def badRowPage_def shortThenBadPage_def emptyCellRow_def commentRow_def

lemmas parse_defs = isDataRow_def parseDownstream_def parseUpstream_def ascend3_def Parent_def
  target_def downstreamRow_def upstreamRow_def splitField_def index_def fromErr_def

lemmas lib_defs = exLib_def parseDecimal_def parseLiteral_def decimalLiteral_def digit_def
  quoteASCII_def formatDecimal_def digitChar_def

lemma scrapeColumns_Inr_eq:
  "scrapeColumns n = Inr vals \<longleftrightarrow>
     list_all (\<lambda>c. FirstChild c \<noteq> nil) (filter (\<lambda>c. Data c = ''td'') (chain n)) \<and>
     vals = map (\<lambda>c. Data (FirstChild c)) (filter (\<lambda>c. Data c = ''td'') (chain n))"
  using scrapeColumns_Inr_iff [of n] scrapeColumns_value [of n] by auto

lemma scrapeTable_Inr_eq:
  "scrapeTable n = Inr rows \<longleftrightarrow>
     list_all (\<lambda>r. list_all (\<lambda>c. FirstChild c \<noteq> nil) (cellNodes r)) (dataRows n) \<and>
     rows = map cells (dataRows n)"
  by (induction n arbitrary: rows)
     (auto simp: dataRows_def cellNodes_def cells_def andThen_eq_Inr scrapeColumns_Inr_eq)

text \<open>
  C10 (amended): cell-text extraction succeeds exactly when every child of a data row
  whose data is \<^verbatim>\<open>td\<close>, of whatever node type, has a first child; it then yields the
  data of those first children, row by row, and otherwise it panics on the nil pointer.
\<close>

theorem scrapeTable_total_iff:
  "((\<exists>rows. scrapeTable n = Inr rows) \<longleftrightarrow>
      list_all (\<lambda>r. list_all (\<lambda>c. FirstChild c \<noteq> nil) (cellNodes r)) (dataRows n)) \<and>
   (\<forall>rows. scrapeTable n = Inr rows \<longrightarrow> rows = map cells (dataRows n)) \<and>
   (\<forall>flt. scrapeTable n = Inl flt \<longrightarrow> flt = Panic NilDereference)"
  using scrapeTable_Inr_eq [of n] scrapeTable_fault [of n] by blast

text \<open>
  On the second downstream row of the example page every cell has a text, and the extraction yields the eight column strings.
\<close>

theorem scrapeTable_total_witness:
  "list_all (\<lambda>r. list_all (\<lambda>c. FirstChild c \<noteq> nil) (cellNodes r)) (dataRows (downRow2 nil)) \<and>
   scrapeTable (downRow2 nil) =
     Inr [[''2'', ''Locked'', ''QAM256'', ''549000000 Hz'', ''-2.1 dBmV'', ''40.1 dB'', ''7'', ''3'']]"
proof -
  have h: "list_all (\<lambda>r. list_all (\<lambda>c. FirstChild c \<noteq> nil) (cellNodes r)) (dataRows (downRow2 nil))"
    by (simp add: page_defs dataRows_def cellNodes_def isDataRow_def)
  with scrapeTable_total_iff [of "downRow2 nil"]
  obtain rows where r: "scrapeTable (downRow2 nil) = Inr rows" by blast
  with scrapeTable_total_iff [of "downRow2 nil"] have "rows = map cells (dataRows (downRow2 nil))"
    by blast
  then have "rows = [[''2'', ''Locked'', ''QAM256'', ''549000000 Hz'', ''-2.1 dBmV'', ''40.1 dB'', ''7'', ''3'']]"
    by (simp add: page_defs dataRows_def cellNodes_def cells_def isDataRow_def)
  with h r show ?thesis by simp
qed

text \<open>
  The extraction is not total: a data row with an empty cell, or with a comment whose text is \<^verbatim>\<open>td\<close>, ends in a nil pointer dereference.
\<close>

theorem scrapeTable_nil_dereference:
  "scrapeTable emptyCellRow = Inl (Panic NilDereference) \<and>
   scrapeTable commentRow = Inl (Panic NilDereference)"
  by (simp add: page_defs isDataRow_def)

section \<open>The rows that are scanned\<close>

lemma deref_nil [simp]: "deref nil p = nil"
  by (cases p) simp_all

lemma deref_append: "deref page (a @ b) = deref (deref page a) b"
proof (induction a arbitrary: page)
  case Nil
  show ?case by simp
next
  case (Cons s a)
  show ?case
  proof (cases page)
    case nil
    then show ?thesis by simp
  next
    case (Node t d at fc ns)
    with Cons.IH show ?thesis by (cases s) simp_all
  qed
qed

lemma Parent_Some_decomp:
  assumes "Parent p = Some q"
  shows "\<exists>k. p = q @ Child # replicate k Sibling"
proof -
  let ?sibs = "takeWhile (\<lambda>s. s = Sibling) (rev p)"
  from assms obtain s where d: "dropWhile (\<lambda>s. s = Sibling) (rev p) = s # rev q"
    by (auto simp: Parent_def split: list.splits)
  then have r: "rev p = ?sibs @ s # rev q" and "s \<noteq> Sibling"
    unfolding dropWhile_eq_Cons_conv by simp_all
  then have s: "s = Child" by (cases s) simp_all
  from r have "rev (rev p) = rev (?sibs @ s # rev q)" by (rule arg_cong)
  with s have p: "p = q @ Child # rev ?sibs" by simp
  have "rev ?sibs = replicate (length ?sibs) Sibling"
    by (rule replicate_eqI) (auto dest: set_takeWhileD)
  with p have "p = q @ Child # replicate (length ?sibs) Sibling" by simp
  then show ?thesis ..
qed

lemma deref_siblings_chain:
  "deref n (replicate k Sibling) \<noteq> nil \<Longrightarrow> deref n (replicate k Sibling) \<in> set (chain n)"
proof (induction k arbitrary: n)
  case 0
  then show ?case by (cases n) simp_all
next
  case (Suc k)
  then show ?case by (cases n) simp_all
qed

lemma Parent_owns:
  assumes "Parent p = Some q" and "deref page p \<noteq> nil"
  shows "owns page q p \<and> deref page q \<noteq> nil"
proof -
  from Parent_Some_decomp [OF assms(1)] obtain k where p: "p = q @ Child # replicate k Sibling" ..
  have d: "deref page p = deref (deref page q) (Child # replicate k Sibling)"
    unfolding p by (rule deref_append)
  with assms(2) have q: "deref page q \<noteq> nil" by auto
  then obtain t da at fc ns where n: "deref page q = Node t da at fc ns"
    by (cases "deref page q") simp_all
  with d have "deref page p = deref fc (replicate k Sibling)" by simp
  with assms(2) deref_siblings_chain [of fc k] have "deref page p \<in> set (chain fc)" by simp
  with n q show ?thesis by (simp add: owns_def)
qed

lemma findTextNode_deref: "findTextNode page text = Some p \<Longrightarrow> deref page p \<noteq> nil"
  by (induction page arbitrary: p) (auto split: if_splits option.splits)

lemma ascend3_Some:
  "Parent p = Some p1 \<Longrightarrow> Parent p1 = Some p2 \<Longrightarrow> Parent p2 = Some p3 \<Longrightarrow> ascend3 p = Inr (Some p3)"
  by (simp add: ascend3_def)

lemma three_levels_owned:
  assumes "findTextNode page text = Some p" "Parent p = Some p1" "Parent p1 = Some p2"
    "Parent p2 = Some p3"
  shows "owns page p1 p \<and> owns page p2 p1 \<and> owns page p3 p2"
proof -
  from Parent_owns [OF assms(2) findTextNode_deref [OF assms(1)]]
  have a: "owns page p1 p" "deref page p1 \<noteq> nil" by simp_all
  from Parent_owns [OF assms(3) a(2)] have b: "owns page p2 p1" "deref page p2 \<noteq> nil" by simp_all
  from Parent_owns [OF assms(4) b(2)] have "owns page p3 p2" by simp
  with a b show ?thesis by simp
qed

text \<open>
  C1 (amended): when the heading text node is found and has three ancestors, the parser
  ascends exactly three ownership levels and then scans the node it has reached and the
  later siblings of that node, in document order (not the children of that node); a
  node qualifies as a data row if and only if it has the single attribute
  \<^verbatim>\<open>align="left"\<close>, and the cells of the qualifying rows are what the records are made of.
\<close>

theorem table_rows_scanned:
  "(findTextNode page ''Downstream Bonded Channels'' = Some p \<and> Parent p = Some p1 \<and>
      Parent p1 = Some p2 \<and> Parent p2 = Some p3 \<longrightarrow>
      owns page p1 p \<and> owns page p2 p1 \<and> owns page p3 p2 \<and>
      parseDownstream lib page =
        andThen (collect (map (\<lambda>r. scrapeColumns (FirstChild r))
                   (filter (\<lambda>r. isDataRow (Attr r)) (chain (deref page p3)))))
          (downstreamRows lib)) \<and>
   (findTextNode page ''Upstream Bonded Channels'' = Some p' \<and> Parent p' = Some p1' \<and>
      Parent p1' = Some p2' \<and> Parent p2' = Some p3' \<longrightarrow>
      owns page p1' p' \<and> owns page p2' p1' \<and> owns page p3' p2' \<and>
      parseUpstream lib page =
        andThen (collect (map (\<lambda>r. scrapeColumns (FirstChild r))
                   (filter (\<lambda>r. isDataRow (Attr r)) (chain (deref page p3')))))
          (upstreamRows lib))"
proof (intro conjI impI; (elim conjE)?)
  assume a: "findTextNode page ''Downstream Bonded Channels'' = Some p" "Parent p = Some p1"
    "Parent p1 = Some p2" "Parent p2 = Some p3"
  from three_levels_owned [OF a]
  show "owns page p1 p" "owns page p2 p1" "owns page p3 p2" by simp_all
  show "parseDownstream lib page =
        andThen (collect (map (\<lambda>r. scrapeColumns (FirstChild r))
                   (filter (\<lambda>r. isDataRow (Attr r)) (chain (deref page p3)))))
          (downstreamRows lib)"
    unfolding parseDownstream_found [OF a(1)] ascend3_Some [OF a(2-4)]
    by (simp add: target_def scrapeTable_collect dataRows_def)
next
  assume a: "findTextNode page ''Upstream Bonded Channels'' = Some p'" "Parent p' = Some p1'"
    "Parent p1' = Some p2'" "Parent p2' = Some p3'"
  from three_levels_owned [OF a]
  show "owns page p1' p'" "owns page p2' p1'" "owns page p3' p2'" by simp_all
  show "parseUpstream lib page =
        andThen (collect (map (\<lambda>r. scrapeColumns (FirstChild r))
                   (filter (\<lambda>r. isDataRow (Attr r)) (chain (deref page p3')))))
          (upstreamRows lib)"
    unfolding parseUpstream_found [OF a(1)] ascend3_Some [OF a(2-4)]
    by (simp add: target_def scrapeTable_collect dataRows_def)
qed


text \<open>
  On the example status page, three levels above each heading is the heading row (\<^verbatim>\<open>tr\<close>), and the rows parsed are that row and its later siblings.
\<close>

theorem table_rows_scanned_witness:
  "findTextNode statusPage ''Downstream Bonded Channels''
     = Some [Child, Child, Sibling, Child, Child, Child, Child, Child, Child] \<and>
   Parent [Child, Child, Sibling, Child, Child, Child, Child, Child, Child]
     = Some [Child, Child, Sibling, Child, Child, Child, Child, Child] \<and>
   Parent [Child, Child, Sibling, Child, Child, Child, Child, Child]
     = Some [Child, Child, Sibling, Child, Child, Child, Child] \<and>
   Parent [Child, Child, Sibling, Child, Child, Child, Child]
     = Some [Child, Child, Sibling, Child, Child, Child] \<and>
   Data (deref statusPage [Child, Child, Sibling, Child, Child, Child]) = ''tr'' \<and>
   parseDownstream exLib statusPage =
     andThen (collect (map (\<lambda>r. scrapeColumns (FirstChild r))
                (filter (\<lambda>r. isDataRow (Attr r))
                   (chain (deref statusPage [Child, Child, Sibling, Child, Child, Child])))))
       (downstreamRows exLib) \<and>
   findTextNode statusPage ''Upstream Bonded Channels''
     = Some [Child, Child, Sibling, Child, Sibling, Child, Child, Child, Child, Child] \<and>
   Parent [Child, Child, Sibling, Child, Sibling, Child, Child, Child, Child, Child]
     = Some [Child, Child, Sibling, Child, Sibling, Child, Child, Child, Child] \<and>
   Parent [Child, Child, Sibling, Child, Sibling, Child, Child, Child, Child]
     = Some [Child, Child, Sibling, Child, Sibling, Child, Child, Child] \<and>
   Parent [Child, Child, Sibling, Child, Sibling, Child, Child, Child]
     = Some [Child, Child, Sibling, Child, Sibling, Child, Child] \<and>
   parseUpstream exLib statusPage =
     andThen (collect (map (\<lambda>r. scrapeColumns (FirstChild r))
                (filter (\<lambda>r. isDataRow (Attr r))
                   (chain (deref statusPage [Child, Child, Sibling, Child, Sibling, Child, Child])))))
       (upstreamRows exLib)"
proof -
  let ?p = "[Child, Child, Sibling, Child, Child, Child, Child, Child, Child]"
  let ?p1 = "[Child, Child, Sibling, Child, Child, Child, Child, Child]"
  let ?p2 = "[Child, Child, Sibling, Child, Child, Child, Child]"
  let ?p3 = "[Child, Child, Sibling, Child, Child, Child]"
  have a: "findTextNode statusPage ''Downstream Bonded Channels'' = Some ?p"
    by (simp add: page_defs)
  have b1: "Parent ?p = Some ?p1" by (simp add: Parent_def)
  have b2: "Parent ?p1 = Some ?p2" by (simp add: Parent_def)
  have b3: "Parent ?p2 = Some ?p3" by (simp add: Parent_def)
  have t: "Data (deref statusPage ?p3) = ''tr''" by (simp add: page_defs)
  note d = table_rows_scanned [of statusPage ?p ?p1 ?p2 ?p3 exLib, THEN conjunct1, THEN mp,
      OF conjI [OF a conjI [OF b1 conjI [OF b2 b3]]], THEN conjunct2, THEN conjunct2, THEN conjunct2]
  let ?u = "[Child, Child, Sibling, Child, Sibling, Child, Child, Child, Child, Child]"
  let ?u1 = "[Child, Child, Sibling, Child, Sibling, Child, Child, Child, Child]"
  let ?u2 = "[Child, Child, Sibling, Child, Sibling, Child, Child, Child]"
  let ?u3 = "[Child, Child, Sibling, Child, Sibling, Child, Child]"
  have ua: "findTextNode statusPage ''Upstream Bonded Channels'' = Some ?u"
    by (simp add: page_defs)
  have u1: "Parent ?u = Some ?u1" by (simp add: Parent_def)
  have u2: "Parent ?u1 = Some ?u2" by (simp add: Parent_def)
  have u3: "Parent ?u2 = Some ?u3" by (simp add: Parent_def)
  note ud = table_rows_scanned [of statusPage _ _ _ _ exLib ?u ?u1 ?u2 ?u3, THEN conjunct2, THEN mp,
      OF conjI [OF ua conjI [OF u1 conjI [OF u2 u3]]], THEN conjunct2, THEN conjunct2, THEN conjunct2]
  from a b1 b2 b3 t d ua u1 u2 u3 ud show ?thesis by (intro conjI)
qed

text \<open>
  Where three levels above the heading is the table itself and the data row is a child of the table, the parser scans the table and its siblings only and returns no record; scanning the children of the table would give one.
\<close>

theorem table_children_not_scanned:
  "findTextNode tablePage ''Downstream Bonded Channels'' = Some [Child, Child, Child] \<and>
   ascend3 [Child, Child, Child] = Inr (Some []) \<and>
   Data (deref tablePage []) = ''table'' \<and>
   parseDownstream exLib tablePage = Inr [] \<and>
   andThen (spec_tableRows tablePage ''Downstream Bonded Channels'') (downstreamRows exLib) =
     Inr [\<lparr> downstreamChannel.ChannelID = ''1'', downstreamChannel.LockStatus = ''Locked'',
            Modulation = ''QAM256'', downstreamChannel.FrequencyHz = 543000000,
            downstreamChannel.PowerdBmV = ''-2.3'', SNRMERdB = ''39.5'', Corrected = 12,
            Uncorrectables = 0 \<rparr>]"
proof (intro conjI)
  show "findTextNode tablePage ''Downstream Bonded Channels'' = Some [Child, Child, Child]"
    by (simp add: page_defs)
  show "ascend3 [Child, Child, Child] = Inr (Some [])"
    by (simp add: ascend3_def Parent_def)
  show "Data (deref tablePage []) = ''table''"
    by (simp add: page_defs)
  show "parseDownstream exLib tablePage = Inr []"
    by (simp add: page_defs parse_defs)
  show "andThen (spec_tableRows tablePage ''Downstream Bonded Channels'') (downstreamRows exLib) =
     Inr [\<lparr> downstreamChannel.ChannelID = ''1'', downstreamChannel.LockStatus = ''Locked'',
            Modulation = ''QAM256'', downstreamChannel.FrequencyHz = 543000000,
            downstreamChannel.PowerdBmV = ''-2.3'', SNRMERdB = ''39.5'', Corrected = 12,
            Uncorrectables = 0 \<rparr>]"
    by (simp add: spec_tableRows_def page_defs parse_defs lib_defs)
qed

section \<open>The lines written\<close>

lemmas env_defs = authDownEnv_def exEnv_def downEnv_def lockedEnv_def singleRowEnv_def exFetcher_def
  fetchPage_def fetchPageInner_def login_def

lemma writeDownstream_lines:
  "writeDownstream lib w ds =
     w @ concat (map (\<lambda>d. concat
       [''downstream_bonded_channels_frequency_hz{channel_id='' @ Quote lib (downstreamChannel.ChannelID d)
          @ ''} '' @ FormatInt lib (downstreamChannel.FrequencyHz d) @ [CHR 0x0A],
        ''downstream_bonded_channels_power_dbmv{channel_id='' @ Quote lib (downstreamChannel.ChannelID d)
          @ ''} '' @ FormatFloat lib (downstreamChannel.PowerdBmV d) @ [CHR 0x0A],
        ''downstream_bonded_channels_snr_mer_db{channel_id='' @ Quote lib (downstreamChannel.ChannelID d)
          @ ''} '' @ FormatFloat lib (SNRMERdB d) @ [CHR 0x0A],
        ''downstream_bonded_channels_corrected{channel_id='' @ Quote lib (downstreamChannel.ChannelID d)
          @ ''} '' @ FormatInt lib (Corrected d) @ [CHR 0x0A],
        ''downstream_bonded_channels_uncorrectables{channel_id='' @ Quote lib (downstreamChannel.ChannelID d)
          @ ''} '' @ FormatInt lib (Uncorrectables d) @ [CHR 0x0A]]) ds)"
  by (induction ds arbitrary: w) (simp_all add: metricLine_def Let_def)

lemma writeUpstream_lines:
  "writeUpstream lib w us =
     w @ concat (map (\<lambda>u. concat
       [''upstream_bonded_channels_frequency_hz{channel_id='' @ Quote lib (upstreamChannel.ChannelID u)
          @ ''} '' @ FormatInt lib (upstreamChannel.FrequencyHz u) @ [CHR 0x0A],
        ''upstream_bonded_channels_width_hz{channel_id='' @ Quote lib (upstreamChannel.ChannelID u)
          @ ''} '' @ FormatInt lib (WidthHz u) @ [CHR 0x0A],
        ''upstream_bonded_channels_power_dbmv{channel_id='' @ Quote lib (upstreamChannel.ChannelID u)
          @ ''} '' @ FormatFloat lib (upstreamChannel.PowerdBmV u) @ [CHR 0x0A]]) us)"
  by (induction us arbitrary: w) (simp_all add: metricLine_def Let_def)

lemma writeMetrics_fetched:
  assumes "fst (fetchPage e f hist) = Inr page"
  shows "fst (writeMetrics e lib f hist w) =
           (if findTextNode page ''Login'' \<noteq> None
              then Some (Error (ErrorString ''Unable to get past login page''))
            else (case parseDownstream lib page of
                    Inl flt \<Rightarrow> Some flt
                  | Inr downstream \<Rightarrow>
                     (case parseUpstream lib page of Inl flt \<Rightarrow> Some flt | Inr upstream \<Rightarrow> None)))"
    and "fst (snd (writeMetrics e lib f hist w)) =
           (if findTextNode page ''Login'' \<noteq> None then w
            else (case parseDownstream lib page of
                    Inl flt \<Rightarrow> w
                  | Inr downstream \<Rightarrow>
                     (case parseUpstream lib page of
                        Inl flt \<Rightarrow> writeDownstream lib w downstream
                      | Inr upstream \<Rightarrow> writeUpstream lib (writeDownstream lib w downstream) upstream)))"
    and "snd (snd (writeMetrics e lib f hist w)) = snd (fetchPage e f hist)"
  using assms
  by (auto simp: writeMetrics_def Let_def split: prod.splits sum.splits)

text \<open>
  C6: when the page is fetched and both tables parse, the writer emits, after what the
  sink already holds, five lines for each downstream record in extraction order
  (frequency, power, SNR/MER, corrected, uncorrectables), then three lines for each
  upstream record in extraction order (frequency, width, power); on each line the
  channel identifier is quoted and the value is not.
\<close>

theorem metrics_lines_in_order:
  assumes "fst (fetchPage e f hist) = Inr page" and "findTextNode page ''Login'' = None"
    and "parseDownstream lib page = Inr ds" and "parseUpstream lib page = Inr us"
  shows "fst (writeMetrics e lib f hist w) = None \<and>
     fst (snd (writeMetrics e lib f hist w)) =
       w @ concat (map (\<lambda>d. concat
         [''downstream_bonded_channels_frequency_hz{channel_id='' @ Quote lib (downstreamChannel.ChannelID d)
            @ ''} '' @ FormatInt lib (downstreamChannel.FrequencyHz d) @ [CHR 0x0A],
          ''downstream_bonded_channels_power_dbmv{channel_id='' @ Quote lib (downstreamChannel.ChannelID d)
            @ ''} '' @ FormatFloat lib (downstreamChannel.PowerdBmV d) @ [CHR 0x0A],
          ''downstream_bonded_channels_snr_mer_db{channel_id='' @ Quote lib (downstreamChannel.ChannelID d)
            @ ''} '' @ FormatFloat lib (SNRMERdB d) @ [CHR 0x0A],
          ''downstream_bonded_channels_corrected{channel_id='' @ Quote lib (downstreamChannel.ChannelID d)
            @ ''} '' @ FormatInt lib (Corrected d) @ [CHR 0x0A],
          ''downstream_bonded_channels_uncorrectables{channel_id='' @ Quote lib (downstreamChannel.ChannelID d)
            @ ''} '' @ FormatInt lib (Uncorrectables d) @ [CHR 0x0A]]) ds)
       @ concat (map (\<lambda>u. concat
         [''upstream_bonded_channels_frequency_hz{channel_id='' @ Quote lib (upstreamChannel.ChannelID u)
            @ ''} '' @ FormatInt lib (upstreamChannel.FrequencyHz u) @ [CHR 0x0A],
          ''upstream_bonded_channels_width_hz{channel_id='' @ Quote lib (upstreamChannel.ChannelID u)
            @ ''} '' @ FormatInt lib (WidthHz u) @ [CHR 0x0A],
          ''upstream_bonded_channels_power_dbmv{channel_id='' @ Quote lib (upstreamChannel.ChannelID u)
            @ ''} '' @ FormatFloat lib (upstreamChannel.PowerdBmV u) @ [CHR 0x0A]]) us)"
  unfolding writeMetrics_fetched [OF assms(1)] assms(2-4)
  by (simp only: writeDownstream_lines writeUpstream_lines append_assoc simp_thms if_False sum.case)

text \<open>
  C8: the outcome of \<open>writeMetrics\<close> and the text it writes are a function of the page
  fetched: two runs that fetch the same page, from whatever fetcher state and by
  whatever path, return the same outcome and write the same bytes.
\<close>

theorem output_determined_by_page:
  assumes "fst (fetchPage e1 f1 hist1) = Inr page" and "fst (fetchPage e2 f2 hist2) = Inr page"
  shows "fst (writeMetrics e1 lib f1 hist1 w) = fst (writeMetrics e2 lib f2 hist2 w) \<and>
         fst (snd (writeMetrics e1 lib f1 hist1 w)) = fst (snd (writeMetrics e2 lib f2 hist2 w))"
  unfolding writeMetrics_fetched [OF assms(1)] writeMetrics_fetched [OF assms(2)] by simp


text \<open>
  The record of the specification's example: channel 1, 543000000 Hz, \<^verbatim>\<open>-2.3\<close> dBmV, \<^verbatim>\<open>39.5\<close> dB, 12 corrected, 0 uncorrectables, written as five lines.
\<close>

theorem metrics_lines_in_order_witness:
  "fst (fetchPage singleRowEnv exFetcher []) = Inr singleRowPage \<and>
   findTextNode singleRowPage ''Login'' = None \<and>
   parseDownstream exLib singleRowPage =
     Inr [\<lparr> downstreamChannel.ChannelID = ''1'', downstreamChannel.LockStatus = ''Locked'',
            Modulation = ''QAM256'', downstreamChannel.FrequencyHz = 543000000,
            downstreamChannel.PowerdBmV = ''-2.3'', SNRMERdB = ''39.5'', Corrected = 12,
            Uncorrectables = 0 \<rparr>] \<and>
   parseUpstream exLib singleRowPage = Inr [] \<and>
   fst (writeMetrics singleRowEnv exLib exFetcher [] []) = None \<and>
   fst (snd (writeMetrics singleRowEnv exLib exFetcher [] [])) =
     ''downstream_bonded_channels_frequency_hz{channel_id='' @ [CHR 0x22] @ ''1'' @ [CHR 0x22]
       @ ''} 543000000'' @ [CHR 0x0A] @
     ''downstream_bonded_channels_power_dbmv{channel_id='' @ [CHR 0x22] @ ''1'' @ [CHR 0x22]
       @ ''} -2.3'' @ [CHR 0x0A] @
     ''downstream_bonded_channels_snr_mer_db{channel_id='' @ [CHR 0x22] @ ''1'' @ [CHR 0x22]
       @ ''} 39.5'' @ [CHR 0x0A] @
     ''downstream_bonded_channels_corrected{channel_id='' @ [CHR 0x22] @ ''1'' @ [CHR 0x22]
       @ ''} 12'' @ [CHR 0x0A] @
     ''downstream_bonded_channels_uncorrectables{channel_id='' @ [CHR 0x22] @ ''1'' @ [CHR 0x22]
       @ ''} 0'' @ [CHR 0x0A]"
proof -
  let ?d = "\<lparr> downstreamChannel.ChannelID = ''1'', downstreamChannel.LockStatus = ''Locked'',
            Modulation = ''QAM256'', downstreamChannel.FrequencyHz = 543000000,
            downstreamChannel.PowerdBmV = ''-2.3'', SNRMERdB = ''39.5'', Corrected = 12,
            Uncorrectables = 0 \<rparr>"
  have b: "findTextNode singleRowPage ''Login'' = None"
    by (simp add: singleRowPage_def page_defs)
  have a: "fst (fetchPage singleRowEnv exFetcher []) = Inr singleRowPage"
    by (simp add: env_defs b)
  have c: "parseDownstream exLib singleRowPage = Inr [?d]"
    by (simp add: singleRowPage_def page_defs parse_defs lib_defs)
  have d: "parseUpstream exLib singleRowPage = Inr []"
    by (simp add: singleRowPage_def page_defs parse_defs lib_defs)
  note th = metrics_lines_in_order [OF a b c d, of "[]"]
  from th have r: "fst (writeMetrics singleRowEnv exLib exFetcher [] []) = None" ..
  from th have "fst (snd (writeMetrics singleRowEnv exLib exFetcher [] [])) =
     ''downstream_bonded_channels_frequency_hz{channel_id='' @ [CHR 0x22] @ ''1'' @ [CHR 0x22]
       @ ''} 543000000'' @ [CHR 0x0A] @
     ''downstream_bonded_channels_power_dbmv{channel_id='' @ [CHR 0x22] @ ''1'' @ [CHR 0x22]
       @ ''} -2.3'' @ [CHR 0x0A] @
     ''downstream_bonded_channels_snr_mer_db{channel_id='' @ [CHR 0x22] @ ''1'' @ [CHR 0x22]
       @ ''} 39.5'' @ [CHR 0x0A] @
     ''downstream_bonded_channels_corrected{channel_id='' @ [CHR 0x22] @ ''1'' @ [CHR 0x22]
       @ ''} 12'' @ [CHR 0x0A] @
     ''downstream_bonded_channels_uncorrectables{channel_id='' @ [CHR 0x22] @ ''1'' @ [CHR 0x22]
       @ ''} 0'' @ [CHR 0x0A]"
    by (simp add: lib_defs natDigits.simps)
  with a b c d r show ?thesis by (intro conjI)
qed

text \<open>
  A run with a valid token and a run that has to authenticate first send different requests, fetch the same page, and write the same text.
\<close>

theorem output_determined_by_page_witness:
  "fst (fetchPage exEnv (exFetcher\<lparr> token := ''new'' \<rparr>) []) = Inr statusPage \<and>
   fst (fetchPage exEnv exFetcher []) = Inr statusPage \<and>
   snd (snd (fetchPage exEnv (exFetcher\<lparr> token := ''new'' \<rparr>) [])) \<noteq> snd (snd (fetchPage exEnv exFetcher [])) \<and>
   fst (writeMetrics exEnv exLib (exFetcher\<lparr> token := ''new'' \<rparr>) [] [])
     = fst (writeMetrics exEnv exLib exFetcher [] []) \<and>
   fst (snd (writeMetrics exEnv exLib (exFetcher\<lparr> token := ''new'' \<rparr>) [] []))
     = fst (snd (writeMetrics exEnv exLib exFetcher [] []))"
proof -
  have l: "findTextNode loginPage ''Login'' \<noteq> None"
    by (simp add: page_defs)
  have s: "findTextNode statusPage ''Login'' = None"
    by (simp add: page_defs)
  have a: "fetchPage exEnv (exFetcher\<lparr> token := ''new'' \<rparr>) [] =
     (Inr statusPage, exFetcher\<lparr> token := ''new'' \<rparr>,
      [\<lparr> URL = ''https://192.168.100.1/cmconnectionstatus.html?ct_new'', BasicAuth = None \<rparr>])"
    by (simp add: env_defs s)
  have b: "fetchPage exEnv exFetcher [] =
     (Inr statusPage, exFetcher\<lparr> token := ''new'' \<rparr>,
      [\<lparr> URL = ''https://192.168.100.1/cmconnectionstatus.html?ct_old'', BasicAuth = None \<rparr>,
       \<lparr> URL = ''https://192.168.100.1'', BasicAuth = None \<rparr>,
       \<lparr> URL = ''https://192.168.100.1/cmconnectionstatus.html?login_YWRtaW46cHc='',
         BasicAuth = Some (''admin'', ''pw'') \<rparr>,
       \<lparr> URL = ''https://192.168.100.1/cmconnectionstatus.html?ct_new'', BasicAuth = None \<rparr>])"
    by (simp add: env_defs l s)
  have a1: "fst (fetchPage exEnv (exFetcher\<lparr> token := ''new'' \<rparr>) []) = Inr statusPage"
    by (simp only: a fst_conv)
  have b1: "fst (fetchPage exEnv exFetcher []) = Inr statusPage"
    by (simp only: b fst_conv)
  have n: "snd (snd (fetchPage exEnv (exFetcher\<lparr> token := ''new'' \<rparr>) [])) \<noteq> snd (snd (fetchPage exEnv exFetcher []))"
    by (simp only: a b snd_conv) simp
  note th = output_determined_by_page [OF a1 b1, of exLib "[]"]
  from a1 b1 n th show ?thesis by (intro conjI) simp_all
qed

section \<open>Column access\<close>

lemma parseDownstream_rows:
  "findTextNode page ''Downstream Bonded Channels'' = Some p \<Longrightarrow> ascend3 p = Inr q \<Longrightarrow>
   scrapeTable (target page q) = Inr rows \<Longrightarrow> parseDownstream lib page = downstreamRows lib rows"
  by (simp add: parseDownstream_def)

lemma parseUpstream_rows:
  "findTextNode page ''Upstream Bonded Channels'' = Some p \<Longrightarrow> ascend3 p = Inr q \<Longrightarrow>
   scrapeTable (target page q) = Inr rows \<Longrightarrow> parseUpstream lib page = upstreamRows lib rows"
  by (simp add: parseUpstream_def)

lemma succeeds_Inr_iff: "succeeds r \<longleftrightarrow> (\<exists>v. r = Inr v)"
  by (cases r) (simp_all add: succeeds_def)

lemma splitField_eq:
  "splitField row i =
     (if i < length row then Inr (numericPrefix (row ! i))
      else Inl (Panic (IndexOutOfRange i (length row))))"
proof (cases "splitField row i")
  case (Inl flt)
  then show ?thesis by (simp add: splitField_fault)
next
  case (Inr v)
  then show ?thesis by (simp add: splitField_Inr)
qed

lemma downstreamRow_first_error:
  "downstreamErrors lib row = e # es \<Longrightarrow> downstreamRow lib row = Inl (Error (StrconvError e))"
  by (auto simp: downstreamErrors_def failure_def downstreamRow_def splitField_eq index_def
      fromErr_def split: if_splits sum.splits)

lemma downstreamRow_missing_column:
  "downstreamErrors lib row = [] \<Longrightarrow> length row < 8 \<Longrightarrow>
     downstreamRow lib row = Inl (Panic (IndexOutOfRange (max 3 (length row)) (length row)))"
  by (auto simp: downstreamErrors_def failure_def downstreamRow_def splitField_eq index_def
      fromErr_def split: if_splits sum.splits)

lemma downstreamRow_succeeds_iff:
  "succeeds (downstreamRow lib row) \<longleftrightarrow> 8 \<le> length row \<and> downstreamErrors lib row = []"
  by (auto simp: succeeds_def downstreamErrors_def failure_def downstreamRow_def splitField_eq
      index_def fromErr_def split: if_splits sum.splits)

lemma upstreamRow_first_error:
  "upstreamErrors lib row = e # es \<Longrightarrow> upstreamRow lib row = Inl (Error (StrconvError e))"
  by (auto simp: upstreamErrors_def failure_def upstreamRow_def splitField_eq index_def
      fromErr_def split: if_splits sum.splits)

lemma upstreamRow_missing_column:
  "upstreamErrors lib row = [] \<Longrightarrow> length row < 7 \<Longrightarrow>
     upstreamRow lib row = Inl (Panic (IndexOutOfRange (max 4 (length row)) (length row)))"
  by (auto simp: upstreamErrors_def failure_def upstreamRow_def splitField_eq index_def
      fromErr_def split: if_splits sum.splits)

lemma upstreamRow_succeeds_iff:
  "succeeds (upstreamRow lib row) \<longleftrightarrow> 7 \<le> length row \<and> upstreamErrors lib row = []"
  by (auto simp: succeeds_def upstreamErrors_def failure_def upstreamRow_def splitField_eq
      index_def fromErr_def split: if_splits sum.splits)


lemma downstreamRows_no_panic:
  assumes "\<forall>row \<in> set rows. 8 \<le> length row"
  shows "downstreamRows lib rows \<noteq> Inl (Panic pn)"
proof
  assume "downstreamRows lib rows = Inl (Panic pn)"
  then obtain i where i: "i < length rows" "downstreamRow lib (rows ! i) = Inl (Panic pn)"
    unfolding downstreamRows_fault by blast
  from i(1) assms have "8 \<le> length (rows ! i)" by simp
  with downstreamRow_fault [OF i(2)] show False by auto
qed

lemma upstreamRows_no_panic:
  assumes "\<forall>row \<in> set rows. 7 \<le> length row"
  shows "upstreamRows lib rows \<noteq> Inl (Panic pn)"
proof
  assume "upstreamRows lib rows = Inl (Panic pn)"
  then obtain i where i: "i < length rows" "upstreamRow lib (rows ! i) = Inl (Panic pn)"
    unfolding upstreamRows_fault by blast
  from i(1) assms have "7 \<le> length (rows ! i)" by simp
  with upstreamRow_fault [OF i(2)] show False by auto
qed

lemma downstreamRows_short_fault:
  assumes "\<exists>row \<in> set rows. length row < 8"
  shows "\<exists>flt. downstreamRows lib rows = Inl flt \<and>
           ((\<exists>i n. flt = Panic (IndexOutOfRange i n)) \<or> (\<exists>e. flt = Error (StrconvError e)))"
proof (cases "downstreamRows lib rows")
  case (Inl flt)
  then obtain i where "downstreamRow lib (rows ! i) = Inl flt"
    unfolding downstreamRows_fault by blast
  from downstreamRow_fault [OF this] Inl show ?thesis by auto
next
  case (Inr data)
  from assms obtain i where i: "i < length rows" "length (rows ! i) < 8"
    by (auto simp: in_set_conv_nth)
  with Inr have "downstreamRow lib (rows ! i) = Inr (data ! i)"
    unfolding downstreamRows_Inr by blast
  then have "8 \<le> length (rows ! i)" unfolding downstreamRow_Inr by blast
  with i(2) show ?thesis by simp
qed

lemma upstreamRows_short_fault:
  assumes "\<exists>row \<in> set rows. length row < 7"
  shows "\<exists>flt. upstreamRows lib rows = Inl flt \<and>
           ((\<exists>i n. flt = Panic (IndexOutOfRange i n)) \<or> (\<exists>e. flt = Error (StrconvError e)))"
proof (cases "upstreamRows lib rows")
  case (Inl flt)
  then obtain i where "upstreamRow lib (rows ! i) = Inl flt"
    unfolding upstreamRows_fault by blast
  from upstreamRow_fault [OF this] Inl show ?thesis by auto
next
  case (Inr data)
  from assms obtain i where i: "i < length rows" "length (rows ! i) < 7"
    by (auto simp: in_set_conv_nth)
  with Inr have "upstreamRow lib (rows ! i) = Inr (data ! i)"
    unfolding upstreamRows_Inr by blast
  then have "7 \<le> length (rows ! i)" unfolding upstreamRow_Inr by blast
  with i(2) show ?thesis by simp
qed

lemma downstreamRows_short_row:
  assumes "k < length rows"
    and "\<forall>j < k. 8 \<le> length (rows ! j) \<and> downstreamErrors lib (rows ! j) = []"
    and "length (rows ! k) < 8"
  shows "downstreamRows lib rows =
     Inl (case downstreamErrors lib (rows ! k) of
            [] \<Rightarrow> Panic (IndexOutOfRange (max 3 (length (rows ! k))) (length (rows ! k)))
          | e # es \<Rightarrow> Error (StrconvError e))"
proof -
  have before: "\<forall>j < k. succeeds (downstreamRow lib (rows ! j))"
    using assms(2) by (simp add: downstreamRow_succeeds_iff)
  have "downstreamRow lib (rows ! k) =
     Inl (case downstreamErrors lib (rows ! k) of
            [] \<Rightarrow> Panic (IndexOutOfRange (max 3 (length (rows ! k))) (length (rows ! k)))
          | e # es \<Rightarrow> Error (StrconvError e))"
  proof (cases "downstreamErrors lib (rows ! k)")
    case Nil
    with assms(3) show ?thesis by (simp add: downstreamRow_missing_column)
  next
    case (Cons e es)
    then show ?thesis by (simp add: downstreamRow_first_error)
  qed
  with assms(1) before show ?thesis
    unfolding downstreamRows_fault by blast
qed

lemma upstreamRows_short_row:
  assumes "k < length rows"
    and "\<forall>j < k. 7 \<le> length (rows ! j) \<and> upstreamErrors lib (rows ! j) = []"
    and "length (rows ! k) < 7"
  shows "upstreamRows lib rows =
     Inl (case upstreamErrors lib (rows ! k) of
            [] \<Rightarrow> Panic (IndexOutOfRange (max 4 (length (rows ! k))) (length (rows ! k)))
          | e # es \<Rightarrow> Error (StrconvError e))"
proof -
  have before: "\<forall>j < k. succeeds (upstreamRow lib (rows ! j))"
    using assms(2) by (simp add: upstreamRow_succeeds_iff)
  have "upstreamRow lib (rows ! k) =
     Inl (case upstreamErrors lib (rows ! k) of
            [] \<Rightarrow> Panic (IndexOutOfRange (max 4 (length (rows ! k))) (length (rows ! k)))
          | e # es \<Rightarrow> Error (StrconvError e))"
  proof (cases "upstreamErrors lib (rows ! k)")
    case Nil
    with assms(3) show ?thesis by (simp add: upstreamRow_missing_column)
  next
    case (Cons e es)
    then show ?thesis by (simp add: upstreamRow_first_error)
  qed
  with assms(1) before show ?thesis
    unfolding upstreamRows_fault by blast
qed

lemma downstreamRows_text_fields:
  assumes "downstreamRows lib rows = Inr data"
  shows "length data = length rows \<and>
     (\<forall>i < length rows. 8 \<le> length (rows ! i) \<and>
        downstreamChannel.ChannelID (data ! i) = rows ! i ! 0 \<and>
        downstreamChannel.LockStatus (data ! i) = rows ! i ! 1 \<and>
        Modulation (data ! i) = rows ! i ! 2)"
  using assms unfolding downstreamRows_Inr downstreamRow_Inr by simp

lemma upstreamRows_text_fields:
  assumes "upstreamRows lib rows = Inr data"
  shows "length data = length rows \<and>
     (\<forall>i < length rows. 7 \<le> length (rows ! i) \<and>
        Channel (data ! i) = rows ! i ! 0 \<and>
        upstreamChannel.ChannelID (data ! i) = rows ! i ! 1 \<and>
        upstreamChannel.LockStatus (data ! i) = rows ! i ! 2 \<and>
        ChannelType (data ! i) = rows ! i ! 3)"
  using assms unfolding upstreamRows_Inr upstreamRow_Inr by simp

text \<open>
  C9 (amended): \<open>parseDownstream\<close> reads the positions 3, 4, 5, 6, 7 of every extracted
  row in this order, and then 0, 1, 2 (\<open>parseUpstream\<close>: 4, 5, 6, then 0 to 3), without
  a bounds check. When every row has at least 8 (7) entries, the parse never panics, and
  the records it returns hold the positions 0 to 2 (0 to 3) of their rows. The first row
  with fewer entries that the parse reaches ends it: in the conversion error of the first
  column the row has that fails to convert, and, when none fails, in an
  index-out-of-range panic at the first position read that the row lacks. No record list
  is returned when some row is short.
\<close>

theorem column_access_bounds:
  "(findTextNode page ''Downstream Bonded Channels'' = Some p \<and> ascend3 p = Inr q \<and>
      scrapeTable (target page q) = Inr rows \<longrightarrow>
      ((\<forall>row \<in> set rows. 8 \<le> length row) \<longrightarrow> (\<forall>pn. parseDownstream lib page \<noteq> Inl (Panic pn))) \<and>
      (\<forall>k. k < length rows \<and>
            (\<forall>j < k. 8 \<le> length (rows ! j) \<and> downstreamErrors lib (rows ! j) = []) \<and>
            length (rows ! k) < 8 \<longrightarrow>
         parseDownstream lib page =
           Inl (case downstreamErrors lib (rows ! k) of
                  [] \<Rightarrow> Panic (IndexOutOfRange (max 3 (length (rows ! k))) (length (rows ! k)))
                | e # es \<Rightarrow> Error (StrconvError e))) \<and>
      ((\<exists>row \<in> set rows. length row < 8) \<longrightarrow>
         (\<exists>flt. parseDownstream lib page = Inl flt \<and>
            ((\<exists>i n. flt = Panic (IndexOutOfRange i n)) \<or> (\<exists>e. flt = Error (StrconvError e))))) \<and>
      (\<forall>data. parseDownstream lib page = Inr data \<longrightarrow>
         length data = length rows \<and>
         (\<forall>i < length rows. 8 \<le> length (rows ! i) \<and>
            downstreamChannel.ChannelID (data ! i) = rows ! i ! 0 \<and>
            downstreamChannel.LockStatus (data ! i) = rows ! i ! 1 \<and>
            Modulation (data ! i) = rows ! i ! 2))) \<and>
   (findTextNode page ''Upstream Bonded Channels'' = Some p' \<and> ascend3 p' = Inr q' \<and>
      scrapeTable (target page q') = Inr rows' \<longrightarrow>
      ((\<forall>row \<in> set rows'. 7 \<le> length row) \<longrightarrow> (\<forall>pn. parseUpstream lib page \<noteq> Inl (Panic pn))) \<and>
      (\<forall>k. k < length rows' \<and>
            (\<forall>j < k. 7 \<le> length (rows' ! j) \<and> upstreamErrors lib (rows' ! j) = []) \<and>
            length (rows' ! k) < 7 \<longrightarrow>
         parseUpstream lib page =
           Inl (case upstreamErrors lib (rows' ! k) of
                  [] \<Rightarrow> Panic (IndexOutOfRange (max 4 (length (rows' ! k))) (length (rows' ! k)))
                | e # es \<Rightarrow> Error (StrconvError e))) \<and>
      ((\<exists>row \<in> set rows'. length row < 7) \<longrightarrow>
         (\<exists>flt. parseUpstream lib page = Inl flt \<and>
            ((\<exists>i n. flt = Panic (IndexOutOfRange i n)) \<or> (\<exists>e. flt = Error (StrconvError e))))) \<and>
      (\<forall>data. parseUpstream lib page = Inr data \<longrightarrow>
         length data = length rows' \<and>
         (\<forall>i < length rows'. 7 \<le> length (rows' ! i) \<and>
            Channel (data ! i) = rows' ! i ! 0 \<and>
            upstreamChannel.ChannelID (data ! i) = rows' ! i ! 1 \<and>
            upstreamChannel.LockStatus (data ! i) = rows' ! i ! 2 \<and>
            ChannelType (data ! i) = rows' ! i ! 3)))"
proof (rule conjI)
  show "findTextNode page ''Downstream Bonded Channels'' = Some p \<and> ascend3 p = Inr q \<and>
      scrapeTable (target page q) = Inr rows \<longrightarrow>
      ((\<forall>row \<in> set rows. 8 \<le> length row) \<longrightarrow> (\<forall>pn. parseDownstream lib page \<noteq> Inl (Panic pn))) \<and>
      (\<forall>k. k < length rows \<and>
            (\<forall>j < k. 8 \<le> length (rows ! j) \<and> downstreamErrors lib (rows ! j) = []) \<and>
            length (rows ! k) < 8 \<longrightarrow>
         parseDownstream lib page =
           Inl (case downstreamErrors lib (rows ! k) of
                  [] \<Rightarrow> Panic (IndexOutOfRange (max 3 (length (rows ! k))) (length (rows ! k)))
                | e # es \<Rightarrow> Error (StrconvError e))) \<and>
      ((\<exists>row \<in> set rows. length row < 8) \<longrightarrow>
         (\<exists>flt. parseDownstream lib page = Inl flt \<and>
            ((\<exists>i n. flt = Panic (IndexOutOfRange i n)) \<or> (\<exists>e. flt = Error (StrconvError e))))) \<and>
      (\<forall>data. parseDownstream lib page = Inr data \<longrightarrow>
         length data = length rows \<and>
         (\<forall>i < length rows. 8 \<le> length (rows ! i) \<and>
            downstreamChannel.ChannelID (data ! i) = rows ! i ! 0 \<and>
            downstreamChannel.LockStatus (data ! i) = rows ! i ! 1 \<and>
            Modulation (data ! i) = rows ! i ! 2))"
  proof (intro impI, elim conjE)
    assume "findTextNode page ''Downstream Bonded Channels'' = Some p" "ascend3 p = Inr q"
      "scrapeTable (target page q) = Inr rows"
    note eq = parseDownstream_rows [OF this, of lib]
    have a: "(\<forall>row \<in> set rows. 8 \<le> length row) \<longrightarrow> (\<forall>pn. downstreamRows lib rows \<noteq> Inl (Panic pn))"
      using downstreamRows_no_panic [of rows lib] by blast
    have b: "\<forall>k. k < length rows \<and>
            (\<forall>j < k. 8 \<le> length (rows ! j) \<and> downstreamErrors lib (rows ! j) = []) \<and>
            length (rows ! k) < 8 \<longrightarrow>
         downstreamRows lib rows =
           Inl (case downstreamErrors lib (rows ! k) of
                  [] \<Rightarrow> Panic (IndexOutOfRange (max 3 (length (rows ! k))) (length (rows ! k)))
                | e # es \<Rightarrow> Error (StrconvError e))"
      using downstreamRows_short_row [of _ rows lib] by blast
    have c: "(\<exists>row \<in> set rows. length row < 8) \<longrightarrow>
         (\<exists>flt. downstreamRows lib rows = Inl flt \<and>
            ((\<exists>i n. flt = Panic (IndexOutOfRange i n)) \<or> (\<exists>e. flt = Error (StrconvError e))))"
      using downstreamRows_short_fault [of rows lib] by blast
    have d: "\<forall>data. downstreamRows lib rows = Inr data \<longrightarrow>
         length data = length rows \<and>
         (\<forall>i < length rows. 8 \<le> length (rows ! i) \<and>
            downstreamChannel.ChannelID (data ! i) = rows ! i ! 0 \<and>
            downstreamChannel.LockStatus (data ! i) = rows ! i ! 1 \<and>
            Modulation (data ! i) = rows ! i ! 2)"
      using downstreamRows_text_fields [of lib rows] by blast
    from a b c d show "((\<forall>row \<in> set rows. 8 \<le> length row) \<longrightarrow> (\<forall>pn. parseDownstream lib page \<noteq> Inl (Panic pn))) \<and>
      (\<forall>k. k < length rows \<and>
            (\<forall>j < k. 8 \<le> length (rows ! j) \<and> downstreamErrors lib (rows ! j) = []) \<and>
            length (rows ! k) < 8 \<longrightarrow>
         parseDownstream lib page =
           Inl (case downstreamErrors lib (rows ! k) of
                  [] \<Rightarrow> Panic (IndexOutOfRange (max 3 (length (rows ! k))) (length (rows ! k)))
                | e # es \<Rightarrow> Error (StrconvError e))) \<and>
      ((\<exists>row \<in> set rows. length row < 8) \<longrightarrow>
         (\<exists>flt. parseDownstream lib page = Inl flt \<and>
            ((\<exists>i n. flt = Panic (IndexOutOfRange i n)) \<or> (\<exists>e. flt = Error (StrconvError e))))) \<and>
      (\<forall>data. parseDownstream lib page = Inr data \<longrightarrow>
         length data = length rows \<and>
         (\<forall>i < length rows. 8 \<le> length (rows ! i) \<and>
            downstreamChannel.ChannelID (data ! i) = rows ! i ! 0 \<and>
            downstreamChannel.LockStatus (data ! i) = rows ! i ! 1 \<and>
            Modulation (data ! i) = rows ! i ! 2))"
      unfolding eq by (intro conjI)
  qed
  show "findTextNode page ''Upstream Bonded Channels'' = Some p' \<and> ascend3 p' = Inr q' \<and>
      scrapeTable (target page q') = Inr rows' \<longrightarrow>
      ((\<forall>row \<in> set rows'. 7 \<le> length row) \<longrightarrow> (\<forall>pn. parseUpstream lib page \<noteq> Inl (Panic pn))) \<and>
      (\<forall>k. k < length rows' \<and>
            (\<forall>j < k. 7 \<le> length (rows' ! j) \<and> upstreamErrors lib (rows' ! j) = []) \<and>
            length (rows' ! k) < 7 \<longrightarrow>
         parseUpstream lib page =
           Inl (case upstreamErrors lib (rows' ! k) of
                  [] \<Rightarrow> Panic (IndexOutOfRange (max 4 (length (rows' ! k))) (length (rows' ! k)))
                | e # es \<Rightarrow> Error (StrconvError e))) \<and>
      ((\<exists>row \<in> set rows'. length row < 7) \<longrightarrow>
         (\<exists>flt. parseUpstream lib page = Inl flt \<and>
            ((\<exists>i n. flt = Panic (IndexOutOfRange i n)) \<or> (\<exists>e. flt = Error (StrconvError e))))) \<and>
      (\<forall>data. parseUpstream lib page = Inr data \<longrightarrow>
         length data = length rows' \<and>
         (\<forall>i < length rows'. 7 \<le> length (rows' ! i) \<and>
            Channel (data ! i) = rows' ! i ! 0 \<and>
            upstreamChannel.ChannelID (data ! i) = rows' ! i ! 1 \<and>
            upstreamChannel.LockStatus (data ! i) = rows' ! i ! 2 \<and>
            ChannelType (data ! i) = rows' ! i ! 3))"
  proof (intro impI, elim conjE)
    assume "findTextNode page ''Upstream Bonded Channels'' = Some p'" "ascend3 p' = Inr q'"
      "scrapeTable (target page q') = Inr rows'"
    note eq = parseUpstream_rows [OF this, of lib]
    have a: "(\<forall>row \<in> set rows'. 7 \<le> length row) \<longrightarrow> (\<forall>pn. upstreamRows lib rows' \<noteq> Inl (Panic pn))"
      using upstreamRows_no_panic [of rows' lib] by blast
    have b: "\<forall>k. k < length rows' \<and>
            (\<forall>j < k. 7 \<le> length (rows' ! j) \<and> upstreamErrors lib (rows' ! j) = []) \<and>
            length (rows' ! k) < 7 \<longrightarrow>
         upstreamRows lib rows' =
           Inl (case upstreamErrors lib (rows' ! k) of
                  [] \<Rightarrow> Panic (IndexOutOfRange (max 4 (length (rows' ! k))) (length (rows' ! k)))
                | e # es \<Rightarrow> Error (StrconvError e))"
      using upstreamRows_short_row [of _ rows' lib] by blast
    have c: "(\<exists>row \<in> set rows'. length row < 7) \<longrightarrow>
         (\<exists>flt. upstreamRows lib rows' = Inl flt \<and>
            ((\<exists>i n. flt = Panic (IndexOutOfRange i n)) \<or> (\<exists>e. flt = Error (StrconvError e))))"
      using upstreamRows_short_fault [of rows' lib] by blast
    have d: "\<forall>data. upstreamRows lib rows' = Inr data \<longrightarrow>
         length data = length rows' \<and>
         (\<forall>i < length rows'. 7 \<le> length (rows' ! i) \<and>
            Channel (data ! i) = rows' ! i ! 0 \<and>
            upstreamChannel.ChannelID (data ! i) = rows' ! i ! 1 \<and>
            upstreamChannel.LockStatus (data ! i) = rows' ! i ! 2 \<and>
            ChannelType (data ! i) = rows' ! i ! 3)"
      using upstreamRows_text_fields [of lib rows'] by blast
    from a b c d show "((\<forall>row \<in> set rows'. 7 \<le> length row) \<longrightarrow> (\<forall>pn. parseUpstream lib page \<noteq> Inl (Panic pn))) \<and>
      (\<forall>k. k < length rows' \<and>
            (\<forall>j < k. 7 \<le> length (rows' ! j) \<and> upstreamErrors lib (rows' ! j) = []) \<and>
            length (rows' ! k) < 7 \<longrightarrow>
         parseUpstream lib page =
           Inl (case upstreamErrors lib (rows' ! k) of
                  [] \<Rightarrow> Panic (IndexOutOfRange (max 4 (length (rows' ! k))) (length (rows' ! k)))
                | e # es \<Rightarrow> Error (StrconvError e))) \<and>
      ((\<exists>row \<in> set rows'. length row < 7) \<longrightarrow>
         (\<exists>flt. parseUpstream lib page = Inl flt \<and>
            ((\<exists>i n. flt = Panic (IndexOutOfRange i n)) \<or> (\<exists>e. flt = Error (StrconvError e))))) \<and>
      (\<forall>data. parseUpstream lib page = Inr data \<longrightarrow>
         length data = length rows' \<and>
         (\<forall>i < length rows'. 7 \<le> length (rows' ! i) \<and>
            Channel (data ! i) = rows' ! i ! 0 \<and>
            upstreamChannel.ChannelID (data ! i) = rows' ! i ! 1 \<and>
            upstreamChannel.LockStatus (data ! i) = rows' ! i ! 2 \<and>
            ChannelType (data ! i) = rows' ! i ! 3))"
      unfolding eq by (intro conjI)
  qed
qed


text \<open>
  On the example status page every downstream row has eight columns and the parse does not
  panic; a downstream row of seven convertible columns panics at position 7, and an
  upstream row of four columns panics at position 4.
\<close>

theorem column_access_bounds_witness:
  "findTextNode statusPage ''Downstream Bonded Channels''
     = Some [Child, Child, Sibling, Child, Child, Child, Child, Child, Child] \<and>
   ascend3 [Child, Child, Sibling, Child, Child, Child, Child, Child, Child]
     = Inr (Some [Child, Child, Sibling, Child, Child, Child]) \<and>
   scrapeTable (target statusPage (Some [Child, Child, Sibling, Child, Child, Child]))
     = Inr [[''1'', ''Locked'', ''QAM256'', ''543000000 Hz'', ''-2.3 dBmV'', ''39.5 dB'', ''12'', ''0''],
            [''2'', ''Locked'', ''QAM256'', ''549000000 Hz'', ''-2.1 dBmV'', ''40.1 dB'', ''7'', ''3'']] \<and>
   (\<forall>pn. parseDownstream exLib statusPage \<noteq> Inl (Panic pn)) \<and>
   findTextNode sevenColumnPage ''Downstream Bonded Channels''
     = Some [Child, Child, Child, Child, Child] \<and>
   ascend3 [Child, Child, Child, Child, Child] = Inr (Some [Child, Child]) \<and>
   scrapeTable (target sevenColumnPage (Some [Child, Child]))
     = Inr [[''1'', ''Locked'', ''QAM256'', ''543000000 Hz'', ''-2.3 dBmV'', ''39.5 dB'', ''12'']] \<and>
   parseDownstream exLib sevenColumnPage = Inl (Panic (IndexOutOfRange 7 7)) \<and>
   findTextNode shortUpstreamPage ''Upstream Bonded Channels''
     = Some [Child, Child, Child, Child, Child] \<and>
   scrapeTable (target shortUpstreamPage (Some [Child, Child]))
     = Inr [[''1'', ''4'', ''Locked'', ''SC-QAM'']] \<and>
   parseUpstream exLib shortUpstreamPage = Inl (Panic (IndexOutOfRange 4 4))"
proof -
  let ?p = "[Child, Child, Sibling, Child, Child, Child, Child, Child, Child]"
  let ?q = "Some [Child, Child, Sibling, Child, Child, Child]"
  let ?rows = "[[''1'', ''Locked'', ''QAM256'', ''543000000 Hz'', ''-2.3 dBmV'', ''39.5 dB'', ''12'', ''0''],
            [''2'', ''Locked'', ''QAM256'', ''549000000 Hz'', ''-2.1 dBmV'', ''40.1 dB'', ''7'', ''3'']]"
  have a: "findTextNode statusPage ''Downstream Bonded Channels'' = Some ?p"
    by (simp add: page_defs)
  have b: "ascend3 ?p = Inr ?q"
    by (simp add: ascend3_def Parent_def)
  have c: "scrapeTable (target statusPage ?q) = Inr ?rows"
    by (simp add: page_defs target_def isDataRow_def)
  have d: "\<forall>row \<in> set ?rows. 8 \<le> length row"
    by simp
  note e = column_access_bounds [of statusPage ?p ?q ?rows exLib, THEN conjunct1, THEN mp,
      OF conjI [OF a conjI [OF b c]], THEN conjunct1, THEN mp, OF d]
  let ?s = "[Child, Child, Child, Child, Child]"
  let ?t = "Some [Child, Child]"
  let ?seven = "[''1'', ''Locked'', ''QAM256'', ''543000000 Hz'', ''-2.3 dBmV'', ''39.5 dB'', ''12'']"
  have sa: "findTextNode sevenColumnPage ''Downstream Bonded Channels'' = Some ?s"
    by (simp add: page_defs)
  have sb: "ascend3 ?s = Inr ?t"
    by (simp add: ascend3_def Parent_def)
  have sc: "scrapeTable (target sevenColumnPage ?t) = Inr [?seven]"
    by (simp add: page_defs target_def isDataRow_def)
  have sh: "0 < length [?seven] \<and>
      (\<forall>j < 0. 8 \<le> length ([?seven] ! j) \<and> downstreamErrors exLib ([?seven] ! j) = []) \<and>
      length ([?seven] ! 0) < 8"
    by simp
  have se: "downstreamErrors exLib ([?seven] ! 0) = []"
    by (simp add: downstreamErrors_def failure_def numericPrefix_def lib_defs)
  note column_access_bounds [of sevenColumnPage ?s ?t "[?seven]" exLib, THEN conjunct1, THEN mp,
      OF conjI [OF sa conjI [OF sb sc]], THEN conjunct2, THEN conjunct1, THEN spec, THEN mp, OF sh]
  then have sr: "parseDownstream exLib sevenColumnPage = Inl (Panic (IndexOutOfRange 7 7))"
    unfolding se by simp
  let ?rows' = "[[''1'', ''4'', ''Locked'', ''SC-QAM'']]"
  have a': "findTextNode shortUpstreamPage ''Upstream Bonded Channels'' = Some ?s"
    by (simp add: page_defs shortUpstreamPage_def)
  have c': "scrapeTable (target shortUpstreamPage ?t) = Inr ?rows'"
    by (simp add: page_defs shortUpstreamPage_def target_def isDataRow_def)
  have uh: "0 < length ?rows' \<and>
      (\<forall>j < 0. 7 \<le> length (?rows' ! j) \<and> upstreamErrors exLib (?rows' ! j) = []) \<and>
      length (?rows' ! 0) < 7"
    by simp
  have ue: "upstreamErrors exLib (?rows' ! 0) = []"
    by (simp add: upstreamErrors_def)
  note column_access_bounds [of shortUpstreamPage _ _ _ exLib ?s ?t ?rows', THEN conjunct2,
      THEN mp, OF conjI [OF a' conjI [OF sb c']], THEN conjunct2, THEN conjunct1, THEN spec,
      THEN mp, OF uh]
  then have e': "parseUpstream exLib shortUpstreamPage = Inl (Panic (IndexOutOfRange 4 4))"
    unfolding ue by simp
  from a b c e sa sb sc sr a' c' e' show ?thesis by (intro conjI)
qed

text \<open>
  A short data row is not an error return: with three columns, reading position 3 is a
  run-time panic.
\<close>

theorem short_row_panics:
  "parseDownstream exLib shortRowPage = Inl (Panic (IndexOutOfRange 3 3))"
  by (simp add: page_defs parse_defs)


section \<open>Conversion failures\<close>

lemma badDownstreamRow_iff: "badDownstreamRow lib row \<longleftrightarrow> downstreamErrors lib row \<noteq> []"
  by (auto simp: badDownstreamRow_def downstreamErrors_def failure_def succeeds_def
      split: sum.splits)

lemma badUpstreamRow_iff: "badUpstreamRow lib row \<longleftrightarrow> upstreamErrors lib row \<noteq> []"
  by (auto simp: badUpstreamRow_def upstreamErrors_def failure_def succeeds_def
      split: sum.splits)

lemma downstreamRows_bad_fails:
  assumes "i < length rows" "badDownstreamRow lib (rows ! i)"
  shows "\<exists>flt. downstreamRows lib rows = Inl flt"
proof (cases "downstreamRows lib rows")
  case (Inl flt)
  then show ?thesis by simp
next
  case (Inr data)
  with assms(1) have "succeeds (downstreamRow lib (rows ! i))"
    unfolding downstreamRows_Inr succeeds_Inr_iff by blast
  with assms(2) show ?thesis
    by (simp add: downstreamRow_succeeds_iff badDownstreamRow_iff)
qed

lemma upstreamRows_bad_fails:
  assumes "i < length rows" "badUpstreamRow lib (rows ! i)"
  shows "\<exists>flt. upstreamRows lib rows = Inl flt"
proof (cases "upstreamRows lib rows")
  case (Inl flt)
  then show ?thesis by simp
next
  case (Inr data)
  with assms(1) have "succeeds (upstreamRow lib (rows ! i))"
    unfolding upstreamRows_Inr succeeds_Inr_iff by blast
  with assms(2) show ?thesis
    by (simp add: upstreamRow_succeeds_iff badUpstreamRow_iff)
qed

lemma downstreamRows_first_error:
  assumes "i < length rows" "badDownstreamRow lib (rows ! i)" "\<forall>j \<le> i. 8 \<le> length (rows ! j)"
  shows "\<exists>k \<le> i. (\<forall>j < k. downstreamErrors lib (rows ! j) = []) \<and>
           downstreamErrors lib (rows ! k) \<noteq> [] \<and>
           downstreamRows lib rows =
             Inl (Error (StrconvError (hd (downstreamErrors lib (rows ! k)))))"
proof -
  from assms(2) have "\<exists>n. downstreamErrors lib (rows ! n) \<noteq> []"
    unfolding badDownstreamRow_iff by blast
  then obtain k where k: "downstreamErrors lib (rows ! k) \<noteq> []"
    "\<forall>j < k. \<not> downstreamErrors lib (rows ! j) \<noteq> []"
    unfolding exists_least_iff [of "\<lambda>n. downstreamErrors lib (rows ! n) \<noteq> []"] by blast
  have ki: "k \<le> i"
  proof (rule ccontr)
    assume "\<not> k \<le> i"
    with k(2) have "downstreamErrors lib (rows ! i) = []" by simp
    with assms(2) show False by (simp add: badDownstreamRow_iff)
  qed
  with assms(1) have kl: "k < length rows" by simp
  have before: "\<forall>j < k. succeeds (downstreamRow lib (rows ! j))"
    using k(2) ki assms(3) by (simp add: downstreamRow_succeeds_iff)
  from k(1) obtain e es where e: "downstreamErrors lib (rows ! k) = e # es"
    by (cases "downstreamErrors lib (rows ! k)") simp_all
  then have "downstreamRow lib (rows ! k) = Inl (Error (StrconvError e))"
    by (rule downstreamRow_first_error)
  with kl before have "downstreamRows lib rows = Inl (Error (StrconvError e))"
    unfolding downstreamRows_fault by blast
  with e have "downstreamRows lib rows =
      Inl (Error (StrconvError (hd (downstreamErrors lib (rows ! k)))))" by simp
  with ki k show ?thesis by blast
qed

lemma upstreamRows_first_error:
  assumes "i < length rows" "badUpstreamRow lib (rows ! i)" "\<forall>j \<le> i. 7 \<le> length (rows ! j)"
  shows "\<exists>k \<le> i. (\<forall>j < k. upstreamErrors lib (rows ! j) = []) \<and>
           upstreamErrors lib (rows ! k) \<noteq> [] \<and>
           upstreamRows lib rows =
             Inl (Error (StrconvError (hd (upstreamErrors lib (rows ! k)))))"
proof -
  from assms(2) have "\<exists>n. upstreamErrors lib (rows ! n) \<noteq> []"
    unfolding badUpstreamRow_iff by blast
  then obtain k where k: "upstreamErrors lib (rows ! k) \<noteq> []"
    "\<forall>j < k. \<not> upstreamErrors lib (rows ! j) \<noteq> []"
    unfolding exists_least_iff [of "\<lambda>n. upstreamErrors lib (rows ! n) \<noteq> []"] by blast
  have ki: "k \<le> i"
  proof (rule ccontr)
    assume "\<not> k \<le> i"
    with k(2) have "upstreamErrors lib (rows ! i) = []" by simp
    with assms(2) show False by (simp add: badUpstreamRow_iff)
  qed
  with assms(1) have kl: "k < length rows" by simp
  have before: "\<forall>j < k. succeeds (upstreamRow lib (rows ! j))"
    using k(2) ki assms(3) by (simp add: upstreamRow_succeeds_iff)
  from k(1) obtain e es where e: "upstreamErrors lib (rows ! k) = e # es"
    by (cases "upstreamErrors lib (rows ! k)") simp_all
  then have "upstreamRow lib (rows ! k) = Inl (Error (StrconvError e))"
    by (rule upstreamRow_first_error)
  with kl before have "upstreamRows lib rows = Inl (Error (StrconvError e))"
    unfolding upstreamRows_fault by blast
  with e have "upstreamRows lib rows =
      Inl (Error (StrconvError (hd (upstreamErrors lib (rows ! k)))))" by simp
  with ki k show ?thesis by blast
qed

text \<open>
  C4 (amended): when the heading is found and the rows are extracted, and some row has a
  numeric column that cannot be converted, the parse returns no record list, not even
  the records of earlier rows. When moreover that row and the rows before it have all
  the columns of the schema, the parse fails with a conversion error, and with this one:
  in the first row that has a column that fails to convert, the error of the first such
  column in the order in which the columns are read.
\<close>

theorem conversion_failure_aborts:
  "(findTextNode page ''Downstream Bonded Channels'' = Some p \<and> ascend3 p = Inr q \<and>
      scrapeTable (target page q) = Inr rows \<and> i < length rows \<and> badDownstreamRow lib (rows ! i) \<longrightarrow>
      (\<exists>flt. parseDownstream lib page = Inl flt) \<and>
      ((\<forall>j \<le> i. 8 \<le> length (rows ! j)) \<longrightarrow>
         (\<exists>k \<le> i. (\<forall>j < k. downstreamErrors lib (rows ! j) = []) \<and>
            downstreamErrors lib (rows ! k) \<noteq> [] \<and>
            parseDownstream lib page =
              Inl (Error (StrconvError (hd (downstreamErrors lib (rows ! k)))))))) \<and>
   (findTextNode page ''Upstream Bonded Channels'' = Some p' \<and> ascend3 p' = Inr q' \<and>
      scrapeTable (target page q') = Inr rows' \<and> i' < length rows' \<and> badUpstreamRow lib (rows' ! i') \<longrightarrow>
      (\<exists>flt. parseUpstream lib page = Inl flt) \<and>
      ((\<forall>j \<le> i'. 7 \<le> length (rows' ! j)) \<longrightarrow>
         (\<exists>k \<le> i'. (\<forall>j < k. upstreamErrors lib (rows' ! j) = []) \<and>
            upstreamErrors lib (rows' ! k) \<noteq> [] \<and>
            parseUpstream lib page =
              Inl (Error (StrconvError (hd (upstreamErrors lib (rows' ! k))))))))"
proof (intro conjI impI; (elim conjE)?)
  assume "findTextNode page ''Downstream Bonded Channels'' = Some p" "ascend3 p = Inr q"
    "scrapeTable (target page q) = Inr rows"
  note eq = parseDownstream_rows [OF this, of lib]
  assume bad: "i < length rows" "badDownstreamRow lib (rows ! i)"
  from downstreamRows_bad_fails [OF bad] show "\<exists>flt. parseDownstream lib page = Inl flt"
    unfolding eq .
  { assume "\<forall>j \<le> i. 8 \<le> length (rows ! j)"
    from downstreamRows_first_error [OF bad this]
    show "\<exists>k \<le> i. (\<forall>j < k. downstreamErrors lib (rows ! j) = []) \<and>
            downstreamErrors lib (rows ! k) \<noteq> [] \<and>
            parseDownstream lib page =
              Inl (Error (StrconvError (hd (downstreamErrors lib (rows ! k)))))"
      unfolding eq . }
next
  assume "findTextNode page ''Upstream Bonded Channels'' = Some p'" "ascend3 p' = Inr q'"
    "scrapeTable (target page q') = Inr rows'"
  note eq = parseUpstream_rows [OF this, of lib]
  assume bad: "i' < length rows'" "badUpstreamRow lib (rows' ! i')"
  from upstreamRows_bad_fails [OF bad] show "\<exists>flt. parseUpstream lib page = Inl flt"
    unfolding eq .
  { assume "\<forall>j \<le> i'. 7 \<le> length (rows' ! j)"
    from upstreamRows_first_error [OF bad this]
    show "\<exists>k \<le> i'. (\<forall>j < k. upstreamErrors lib (rows' ! j) = []) \<and>
            upstreamErrors lib (rows' ! k) \<noteq> [] \<and>
            parseUpstream lib page =
              Inl (Error (StrconvError (hd (upstreamErrors lib (rows' ! k)))))"
      unfolding eq . }
qed


text \<open>
  A second row whose frequency is \<^verbatim>\<open>n/a Hz\<close>: the parse returns the error of that
  conversion and the record of the first row is not returned. A row whose columns 6 and
  7 both fail: the error is that of column 6, which is read first. An upstream row whose
  width is \<^verbatim>\<open>wide\<close>: the error is that of the width.
\<close>

theorem conversion_failure_aborts_witness:
  "scrapeTable (target badRowPage (Some [Child, Child]))
     = Inr [[''1'', ''Locked'', ''QAM256'', ''543000000 Hz'', ''-2.3 dBmV'', ''39.5 dB'', ''12'', ''0''],
            [''3'', ''Locked'', ''QAM256'', ''n/a Hz'', ''-2.3 dBmV'', ''39.5 dB'', ''12'', ''0'']] \<and>
   badDownstreamRow exLib
     [''3'', ''Locked'', ''QAM256'', ''n/a Hz'', ''-2.3 dBmV'', ''39.5 dB'', ''12'', ''0''] \<and>
   parseDownstream exLib badRowPage
     = Inl (Error (StrconvError (NumError ''ParseInt'' ''n/a'' ErrSyntax))) \<and>
   scrapeTable (target twoBadColumnsPage (Some [Child, Child]))
     = Inr [[''1'', ''Locked'', ''QAM256'', ''543000000 Hz'', ''-2.3 dBmV'', ''39.5 dB'', ''x'', ''y'']] \<and>
   parseDownstream exLib twoBadColumnsPage
     = Inl (Error (StrconvError (NumError ''Atoi'' ''x'' ErrSyntax))) \<and>
   scrapeTable (target badUpstreamPage (Some [Child, Child]))
     = Inr [[''1'', ''4'', ''Locked'', ''SC-QAM'', ''22800000 Hz'', ''wide'', ''44.0 dBmV'']] \<and>
   parseUpstream exLib badUpstreamPage
     = Inl (Error (StrconvError (NumError ''ParseInt'' ''wide'' ErrSyntax)))"
proof -
  let ?p = "[Child, Child, Child, Child, Child]"
  let ?q = "Some [Child, Child]"
  let ?good = "[''1'', ''Locked'', ''QAM256'', ''543000000 Hz'', ''-2.3 dBmV'', ''39.5 dB'', ''12'', ''0'']"
  let ?bad = "[''3'', ''Locked'', ''QAM256'', ''n/a Hz'', ''-2.3 dBmV'', ''39.5 dB'', ''12'', ''0'']"
  let ?rows = "[?good, ?bad]"
  have b: "ascend3 ?p = Inr ?q"
    by (simp add: ascend3_def Parent_def)
  have a: "findTextNode badRowPage ''Downstream Bonded Channels'' = Some ?p"
    by (simp add: page_defs)
  have c: "scrapeTable (target badRowPage ?q) = Inr ?rows"
    by (simp add: page_defs target_def isDataRow_def)
  have d: "badDownstreamRow exLib ?bad"
    by (simp add: badDownstreamRow_def numericPrefix_def succeeds_def lib_defs)
  have i: "1 < length ?rows" by simp
  have d': "badDownstreamRow exLib (?rows ! 1)" using d by simp
  have len: "\<forall>j \<le> 1. 8 \<le> length (?rows ! j)"
    by (auto simp: le_Suc_eq)
  have e0: "downstreamErrors exLib ?good = []"
    by (simp add: downstreamErrors_def failure_def numericPrefix_def lib_defs)
  have e1: "downstreamErrors exLib ?bad = [NumError ''ParseInt'' ''n/a'' ErrSyntax]"
    by (simp add: downstreamErrors_def failure_def numericPrefix_def lib_defs)
  note th = conversion_failure_aborts [of badRowPage ?p ?q ?rows 1 exLib, THEN conjunct1, THEN mp,
      OF conjI [OF a conjI [OF b conjI [OF c conjI [OF i d']]]], THEN conjunct2, THEN mp, OF len]
  from th obtain k where k: "k \<le> 1 \<and> (\<forall>j < k. downstreamErrors exLib (?rows ! j) = []) \<and>
      downstreamErrors exLib (?rows ! k) \<noteq> [] \<and>
      parseDownstream exLib badRowPage =
        Inl (Error (StrconvError (hd (downstreamErrors exLib (?rows ! k)))))" ..
  have "k = 1"
  proof (cases k)
    case 0
    with k e0 show ?thesis by simp
  next
    case (Suc n)
    with k show ?thesis by simp
  qed
  with k e1 have r: "parseDownstream exLib badRowPage
     = Inl (Error (StrconvError (NumError ''ParseInt'' ''n/a'' ErrSyntax)))" by simp
  let ?two = "[''1'', ''Locked'', ''QAM256'', ''543000000 Hz'', ''-2.3 dBmV'', ''39.5 dB'', ''x'', ''y'']"
  have ta: "findTextNode twoBadColumnsPage ''Downstream Bonded Channels'' = Some ?p"
    by (simp add: page_defs)
  have tc: "scrapeTable (target twoBadColumnsPage ?q) = Inr [?two]"
    by (simp add: page_defs target_def isDataRow_def)
  have te: "downstreamErrors exLib ?two =
      [NumError ''Atoi'' ''x'' ErrSyntax, NumError ''Atoi'' ''y'' ErrSyntax]"
    by (simp add: downstreamErrors_def failure_def numericPrefix_def lib_defs)
  have td: "badDownstreamRow exLib ([?two] ! 0)"
    unfolding badDownstreamRow_iff using te by simp
  have ti: "0 < length [?two]" by simp
  have tlen: "\<forall>j \<le> 0. 8 \<le> length ([?two] ! j)" by simp
  note tth = conversion_failure_aborts [of twoBadColumnsPage ?p ?q "[?two]" 0 exLib, THEN conjunct1,
      THEN mp, OF conjI [OF ta conjI [OF b conjI [OF tc conjI [OF ti td]]]], THEN conjunct2,
      THEN mp, OF tlen]
  from tth obtain k' where k': "k' \<le> 0 \<and> (\<forall>j < k'. downstreamErrors exLib ([?two] ! j) = []) \<and>
      downstreamErrors exLib ([?two] ! k') \<noteq> [] \<and>
      parseDownstream exLib twoBadColumnsPage =
        Inl (Error (StrconvError (hd (downstreamErrors exLib ([?two] ! k')))))" ..
  then have "k' = 0" by simp
  with k' te have tr: "parseDownstream exLib twoBadColumnsPage
     = Inl (Error (StrconvError (NumError ''Atoi'' ''x'' ErrSyntax)))" by simp
  let ?up = "[''1'', ''4'', ''Locked'', ''SC-QAM'', ''22800000 Hz'', ''wide'', ''44.0 dBmV'']"
  have ua: "findTextNode badUpstreamPage ''Upstream Bonded Channels'' = Some ?p"
    by (simp add: page_defs badUpstreamPage_def)
  have uc: "scrapeTable (target badUpstreamPage ?q) = Inr [?up]"
    by (simp add: page_defs badUpstreamPage_def target_def isDataRow_def)
  have ue: "upstreamErrors exLib ?up = [NumError ''ParseInt'' ''wide'' ErrSyntax]"
    by (simp add: upstreamErrors_def failure_def numericPrefix_def lib_defs)
  have ud: "badUpstreamRow exLib ([?up] ! 0)"
    unfolding badUpstreamRow_iff using ue by simp
  have ui: "0 < length [?up]" by simp
  have ulen: "\<forall>j \<le> 0. 7 \<le> length ([?up] ! j)" by simp
  note uth = conversion_failure_aborts [of badUpstreamPage _ _ _ _ exLib ?p ?q "[?up]" 0,
      THEN conjunct2, THEN mp, OF conjI [OF ua conjI [OF b conjI [OF uc conjI [OF ui ud]]]],
      THEN conjunct2, THEN mp, OF ulen]
  from uth obtain k'' where k'': "k'' \<le> 0 \<and> (\<forall>j < k''. upstreamErrors exLib ([?up] ! j) = []) \<and>
      upstreamErrors exLib ([?up] ! k'') \<noteq> [] \<and>
      parseUpstream exLib badUpstreamPage =
        Inl (Error (StrconvError (hd (upstreamErrors exLib ([?up] ! k'')))))" ..
  then have "k'' = 0" by simp
  with k'' ue have ur: "parseUpstream exLib badUpstreamPage
     = Inl (Error (StrconvError (NumError ''ParseInt'' ''wide'' ErrSyntax)))" by simp
  from c d r tc tr uc ur show ?thesis by (intro conjI)
qed

text \<open>
  A row with a frequency that cannot be converted does not always end the parse with the
  conversion error: after a row of three columns the parse has panicked before it reads
  that row.
\<close>

theorem short_row_preempts_conversion_error:
  "scrapeTable (target shortThenBadPage (Some [Child, Child]))
     = Inr [[''1'', ''Locked'', ''QAM256''],
            [''3'', ''Locked'', ''QAM256'', ''n/a Hz'', ''-2.3 dBmV'', ''39.5 dB'', ''12'', ''0'']] \<and>
   badDownstreamRow exLib
     [''3'', ''Locked'', ''QAM256'', ''n/a Hz'', ''-2.3 dBmV'', ''39.5 dB'', ''12'', ''0''] \<and>
   parseDownstream exLib shortThenBadPage = Inl (Panic (IndexOutOfRange 3 3))"
proof (intro conjI)
  show "scrapeTable (target shortThenBadPage (Some [Child, Child]))
     = Inr [[''1'', ''Locked'', ''QAM256''],
            [''3'', ''Locked'', ''QAM256'', ''n/a Hz'', ''-2.3 dBmV'', ''39.5 dB'', ''12'', ''0'']]"
    by (simp add: page_defs target_def isDataRow_def)
  show "badDownstreamRow exLib
     [''3'', ''Locked'', ''QAM256'', ''n/a Hz'', ''-2.3 dBmV'', ''39.5 dB'', ''12'', ''0'']"
    by (simp add: badDownstreamRow_def numericPrefix_def succeeds_def lib_defs)
  show "parseDownstream exLib shortThenBadPage = Inl (Panic (IndexOutOfRange 3 3))"
    by (simp add: page_defs parse_defs)
qed


section \<open>Pages that match the schema\<close>

lemma numericPrefix_no_space: "CHR '' '' \<notin> set s \<Longrightarrow> numericPrefix s = s"
  by (auto simp: numericPrefix_def takeWhile_eq_all_conv)

lemma schemaDownstreamRow_parses:
  assumes "schemaDownstreamRow lib r"
  shows "\<exists>d. downstreamRow lib (cells r) = Inr d"
proof -
  from assms obtain f pw sn co un where
    "8 \<le> length (cells r)"
    "ParseInt lib (numericPrefix (cells r ! 3)) = Inr f"
    "ParseFloat lib (numericPrefix (cells r ! 4)) = Inr pw"
    "ParseFloat lib (numericPrefix (cells r ! 5)) = Inr sn"
    "Atoi lib (cells r ! 6) = Inr co"
    "Atoi lib (cells r ! 7) = Inr un"
    unfolding schemaDownstreamRow_def succeeds_Inr_iff by blast
  then have "downstreamRow lib (cells r) =
     Inr \<lparr> downstreamChannel.ChannelID = cells r ! 0, downstreamChannel.LockStatus = cells r ! 1,
           Modulation = cells r ! 2, downstreamChannel.FrequencyHz = f,
           downstreamChannel.PowerdBmV = pw, SNRMERdB = sn, Corrected = co, Uncorrectables = un \<rparr>"
    unfolding downstreamRow_Inr by simp
  then show ?thesis ..
qed

lemma schema_rows_parse:
  assumes "list_all (schemaDownstreamRow lib) rs"
  shows "\<exists>data. downstreamRows lib (map cells rs) = Inr data"
  using assms
proof (induction rs)
  case Nil
  show ?case by simp
next
  case (Cons r rs)
  then obtain data where "downstreamRows lib (map cells rs) = Inr data" by auto
  moreover from Cons.prems obtain d where "downstreamRow lib (cells r) = Inr d"
    using schemaDownstreamRow_parses by auto
  ultimately show ?case by simp
qed

lemma schema_rows_scrape:
  assumes "list_all (schemaDownstreamRow lib) (dataRows n)"
  shows "scrapeTable n = Inr (map cells (dataRows n))"
proof -
  have "list_all (\<lambda>r. list_all (\<lambda>c. FirstChild c \<noteq> nil) (cellNodes r)) (dataRows n)"
    using assms by (auto simp: list_all_iff schemaDownstreamRow_def)
  then show ?thesis by (simp add: scrapeTable_Inr_eq)
qed

text \<open>
  C3 (amended): when the heading is found and has three ancestors, and every data row
  among the third ancestor and its later siblings matches the downstream schema,
  \<open>parseDownstream\<close> returns one record for each of these rows, in document order; the
  text fields are the columns 0 to 2, and every numeric field is the value of the
  conversion of the prefix before the first space of its column (3 frequency, 4 power,
  5 SNR/MER, 6 corrected, 7 uncorrectables).
\<close>

theorem parseDownstream_schema_records:
  assumes "findTextNode page ''Downstream Bonded Channels'' = Some p"
    and "Parent p = Some p1" and "Parent p1 = Some p2" and "Parent p2 = Some p3"
    and "list_all (schemaDownstreamRow lib) (dataRows (deref page p3))"
  shows "\<exists>data.
     parseDownstream lib page = Inr data \<and>
     length data = length (dataRows (deref page p3)) \<and>
     (\<forall>i < length data.
        downstreamChannel.ChannelID (data ! i) = cells (dataRows (deref page p3) ! i) ! 0 \<and>
        downstreamChannel.LockStatus (data ! i) = cells (dataRows (deref page p3) ! i) ! 1 \<and>
        Modulation (data ! i) = cells (dataRows (deref page p3) ! i) ! 2 \<and>
        ParseInt lib (numericPrefix (cells (dataRows (deref page p3) ! i) ! 3))
          = Inr (downstreamChannel.FrequencyHz (data ! i)) \<and>
        ParseFloat lib (numericPrefix (cells (dataRows (deref page p3) ! i) ! 4))
          = Inr (downstreamChannel.PowerdBmV (data ! i)) \<and>
        ParseFloat lib (numericPrefix (cells (dataRows (deref page p3) ! i) ! 5))
          = Inr (SNRMERdB (data ! i)) \<and>
        Atoi lib (numericPrefix (cells (dataRows (deref page p3) ! i) ! 6))
          = Inr (Corrected (data ! i)) \<and>
        Atoi lib (numericPrefix (cells (dataRows (deref page p3) ! i) ! 7))
          = Inr (Uncorrectables (data ! i)))"
proof -
  let ?rs = "dataRows (deref page p3)"
  have asc: "ascend3 p = Inr (Some p3)"
    using assms(2-4) by (rule ascend3_Some)
  have tg: "target page (Some p3) = deref page p3"
    by (simp add: target_def)
  from schema_rows_parse [OF assms(5)] obtain data where
    data: "downstreamRows lib (map cells ?rs) = Inr data" ..
  have scr: "scrapeTable (target page (Some p3)) = Inr (map cells ?rs)"
    unfolding tg using assms(5) by (rule schema_rows_scrape)
  have parse: "parseDownstream lib page = Inr data"
    using parseDownstream_rows [OF assms(1) asc scr, of lib] data by simp
  from data have len: "length data = length ?rs"
    and each: "\<forall>i < length ?rs. downstreamRow lib (cells (?rs ! i)) = Inr (data ! i)"
    unfolding downstreamRows_Inr by simp_all
  have fields: "\<forall>i < length data.
        downstreamChannel.ChannelID (data ! i) = cells (?rs ! i) ! 0 \<and>
        downstreamChannel.LockStatus (data ! i) = cells (?rs ! i) ! 1 \<and>
        Modulation (data ! i) = cells (?rs ! i) ! 2 \<and>
        ParseInt lib (numericPrefix (cells (?rs ! i) ! 3)) = Inr (downstreamChannel.FrequencyHz (data ! i)) \<and>
        ParseFloat lib (numericPrefix (cells (?rs ! i) ! 4)) = Inr (downstreamChannel.PowerdBmV (data ! i)) \<and>
        ParseFloat lib (numericPrefix (cells (?rs ! i) ! 5)) = Inr (SNRMERdB (data ! i)) \<and>
        Atoi lib (numericPrefix (cells (?rs ! i) ! 6)) = Inr (Corrected (data ! i)) \<and>
        Atoi lib (numericPrefix (cells (?rs ! i) ! 7)) = Inr (Uncorrectables (data ! i))"
  proof (intro allI impI)
    fix i assume "i < length data"
    with len have i: "i < length ?rs" by simp
    with each have r: "downstreamRow lib (cells (?rs ! i)) = Inr (data ! i)" by simp
    from i assms(5) have "schemaDownstreamRow lib (?rs ! i)"
      by (simp add: list_all_length)
    then have "numericPrefix (cells (?rs ! i) ! 6) = cells (?rs ! i) ! 6"
      "numericPrefix (cells (?rs ! i) ! 7) = cells (?rs ! i) ! 7"
      by (simp_all add: schemaDownstreamRow_def numericPrefix_no_space)
    with r show "downstreamChannel.ChannelID (data ! i) = cells (?rs ! i) ! 0 \<and>
        downstreamChannel.LockStatus (data ! i) = cells (?rs ! i) ! 1 \<and>
        Modulation (data ! i) = cells (?rs ! i) ! 2 \<and>
        ParseInt lib (numericPrefix (cells (?rs ! i) ! 3)) = Inr (downstreamChannel.FrequencyHz (data ! i)) \<and>
        ParseFloat lib (numericPrefix (cells (?rs ! i) ! 4)) = Inr (downstreamChannel.PowerdBmV (data ! i)) \<and>
        ParseFloat lib (numericPrefix (cells (?rs ! i) ! 5)) = Inr (SNRMERdB (data ! i)) \<and>
        Atoi lib (numericPrefix (cells (?rs ! i) ! 6)) = Inr (Corrected (data ! i)) \<and>
        Atoi lib (numericPrefix (cells (?rs ! i) ! 7)) = Inr (Uncorrectables (data ! i))"
      unfolding downstreamRow_Inr by simp
  qed
  from parse len fields show ?thesis by blast
qed

text \<open>
  On the example status page the third ancestor of the heading is the heading row; the
  two data rows after it match the schema and give two records, \<^verbatim>\<open>543000000 Hz\<close> giving
  the frequency 543000000.
\<close>

theorem parseDownstream_schema_records_witness:
  "findTextNode statusPage ''Downstream Bonded Channels''
     = Some [Child, Child, Sibling, Child, Child, Child, Child, Child, Child] \<and>
   Parent [Child, Child, Sibling, Child, Child, Child, Child, Child, Child]
     = Some [Child, Child, Sibling, Child, Child, Child, Child, Child] \<and>
   Parent [Child, Child, Sibling, Child, Child, Child, Child, Child]
     = Some [Child, Child, Sibling, Child, Child, Child, Child] \<and>
   Parent [Child, Child, Sibling, Child, Child, Child, Child]
     = Some [Child, Child, Sibling, Child, Child, Child] \<and>
   list_all (schemaDownstreamRow exLib)
     (dataRows (deref statusPage [Child, Child, Sibling, Child, Child, Child])) \<and>
   length (dataRows (deref statusPage [Child, Child, Sibling, Child, Child, Child])) = 2 \<and>
   (\<exists>data. parseDownstream exLib statusPage = Inr data \<and> length data = 2) \<and>
   parseDownstream exLib statusPage =
     Inr [\<lparr> downstreamChannel.ChannelID = ''1'', downstreamChannel.LockStatus = ''Locked'',
            Modulation = ''QAM256'', downstreamChannel.FrequencyHz = 543000000,
            downstreamChannel.PowerdBmV = ''-2.3'', SNRMERdB = ''39.5'', Corrected = 12,
            Uncorrectables = 0 \<rparr>,
          \<lparr> downstreamChannel.ChannelID = ''2'', downstreamChannel.LockStatus = ''Locked'',
            Modulation = ''QAM256'', downstreamChannel.FrequencyHz = 549000000,
            downstreamChannel.PowerdBmV = ''-2.1'', SNRMERdB = ''40.1'', Corrected = 7,
            Uncorrectables = 3 \<rparr>]"
proof -
  let ?p = "[Child, Child, Sibling, Child, Child, Child, Child, Child, Child]"
  let ?p1 = "[Child, Child, Sibling, Child, Child, Child, Child, Child]"
  let ?p2 = "[Child, Child, Sibling, Child, Child, Child, Child]"
  let ?p3 = "[Child, Child, Sibling, Child, Child, Child]"
  have a: "findTextNode statusPage ''Downstream Bonded Channels'' = Some ?p"
    by (simp add: page_defs)
  have b1: "Parent ?p = Some ?p1" by (simp add: Parent_def)
  have b2: "Parent ?p1 = Some ?p2" by (simp add: Parent_def)
  have b3: "Parent ?p2 = Some ?p3" by (simp add: Parent_def)
  have h: "list_all (schemaDownstreamRow exLib) (dataRows (deref statusPage ?p3))"
    by (simp add: schemaDownstreamRow_def page_defs dataRows_def cellNodes_def cells_def
        isDataRow_def numericPrefix_def succeeds_def lib_defs)
  have n: "length (dataRows (deref statusPage ?p3)) = 2"
    by (simp add: page_defs dataRows_def isDataRow_def)
  from parseDownstream_schema_records [OF a b1 b2 b3 h] obtain data where
    d: "parseDownstream exLib statusPage = Inr data \<and>
        length data = length (dataRows (deref statusPage ?p3)) \<and>
     (\<forall>i < length data.
        downstreamChannel.ChannelID (data ! i) = cells (dataRows (deref statusPage ?p3) ! i) ! 0 \<and>
        downstreamChannel.LockStatus (data ! i) = cells (dataRows (deref statusPage ?p3) ! i) ! 1 \<and>
        Modulation (data ! i) = cells (dataRows (deref statusPage ?p3) ! i) ! 2 \<and>
        ParseInt exLib (numericPrefix (cells (dataRows (deref statusPage ?p3) ! i) ! 3))
          = Inr (downstreamChannel.FrequencyHz (data ! i)) \<and>
        ParseFloat exLib (numericPrefix (cells (dataRows (deref statusPage ?p3) ! i) ! 4))
          = Inr (downstreamChannel.PowerdBmV (data ! i)) \<and>
        ParseFloat exLib (numericPrefix (cells (dataRows (deref statusPage ?p3) ! i) ! 5))
          = Inr (SNRMERdB (data ! i)) \<and>
        Atoi exLib (numericPrefix (cells (dataRows (deref statusPage ?p3) ! i) ! 6))
          = Inr (Corrected (data ! i)) \<and>
        Atoi exLib (numericPrefix (cells (dataRows (deref statusPage ?p3) ! i) ! 7))
          = Inr (Uncorrectables (data ! i)))" ..
  then have "parseDownstream exLib statusPage = Inr data \<and> length data = 2"
    unfolding n by (intro conjI) (erule conjunct1, erule conjunct2 [THEN conjunct1])
  then have e: "\<exists>data. parseDownstream exLib statusPage = Inr data \<and> length data = 2" ..
  have v: "parseDownstream exLib statusPage =
     Inr [\<lparr> downstreamChannel.ChannelID = ''1'', downstreamChannel.LockStatus = ''Locked'',
            Modulation = ''QAM256'', downstreamChannel.FrequencyHz = 543000000,
            downstreamChannel.PowerdBmV = ''-2.3'', SNRMERdB = ''39.5'', Corrected = 12,
            Uncorrectables = 0 \<rparr>,
          \<lparr> downstreamChannel.ChannelID = ''2'', downstreamChannel.LockStatus = ''Locked'',
            Modulation = ''QAM256'', downstreamChannel.FrequencyHz = 549000000,
            downstreamChannel.PowerdBmV = ''-2.1'', SNRMERdB = ''40.1'', Corrected = 7,
            Uncorrectables = 3 \<rparr>]"
    by (simp add: page_defs parse_defs lib_defs)
  from a b1 b2 b3 h n e v show ?thesis by (intro conjI)
qed

text \<open>
  A page that is well formed in the words of the specification, the data rows being the
  children of the node three levels above the heading: the two rows match the schema,
  and \<open>parseDownstream\<close> returns no record at all, since it scans that node and its
  siblings and not its children.
\<close>

theorem schema_rows_of_table_not_parsed:
  "schemaDownstreamPage exLib tbodyPage \<and>
   findTextNode tbodyPage ''Downstream Bonded Channels''
     = Some [Child, Child, Sibling, Child, Child, Child, Child, Child] \<and>
   ascend3 [Child, Child, Sibling, Child, Child, Child, Child, Child]
     = Inr (Some [Child, Child, Sibling, Child, Child]) \<and>
   Data (deref tbodyPage [Child, Child, Sibling, Child, Child]) = ''tbody'' \<and>
   map cells (dataRows (FirstChild (deref tbodyPage [Child, Child, Sibling, Child, Child])))
     = [[''1'', ''Locked'', ''QAM256'', ''543000000 Hz'', ''-2.3 dBmV'', ''39.5 dB'', ''12'', ''0''],
        [''2'', ''Locked'', ''QAM256'', ''549000000 Hz'', ''-2.1 dBmV'', ''40.1 dB'', ''7'', ''3'']] \<and>
   parseDownstream exLib tbodyPage = Inr []"
proof (intro conjI)
  show "schemaDownstreamPage exLib tbodyPage"
    unfolding schemaDownstreamPage_def findTextNode_find [symmetric]
    by (simp add: schemaDownstreamRow_def page_defs Parent_def dataRows_def cellNodes_def
        cells_def isDataRow_def numericPrefix_def succeeds_def lib_defs)
  show "findTextNode tbodyPage ''Downstream Bonded Channels''
     = Some [Child, Child, Sibling, Child, Child, Child, Child, Child]"
    by (simp add: page_defs)
  show "ascend3 [Child, Child, Sibling, Child, Child, Child, Child, Child]
     = Inr (Some [Child, Child, Sibling, Child, Child])"
    by (simp add: ascend3_def Parent_def)
  show "Data (deref tbodyPage [Child, Child, Sibling, Child, Child]) = ''tbody''"
    by (simp add: page_defs)
  show "map cells (dataRows (FirstChild (deref tbodyPage [Child, Child, Sibling, Child, Child])))
     = [[''1'', ''Locked'', ''QAM256'', ''543000000 Hz'', ''-2.3 dBmV'', ''39.5 dB'', ''12'', ''0''],
        [''2'', ''Locked'', ''QAM256'', ''549000000 Hz'', ''-2.1 dBmV'', ''40.1 dB'', ''7'', ''3'']]"
    by (simp add: page_defs dataRows_def cellNodes_def cells_def isDataRow_def)
  show "parseDownstream exLib tbodyPage = Inr []"
    by (simp add: page_defs parse_defs)
qed


section \<open>A stale token\<close>

lemma fetchPageInner_history:
  assumes "fetchPageInner e f hist = (r, h)"
  shows "(h = hist \<and> (\<exists>err. r = Inl err)) \<or> h = hist @ [pageReq f (token f)]"
  using assms
  by (auto simp: fetchPageInner_def pageReq_def Let_def split: option.splits sum.splits)

lemma fetchPageInner_page_history:
  "fetchPageInner e f hist = (Inr page, h) \<Longrightarrow> h = hist @ [pageReq f (token f)]"
  using fetchPageInner_history [of e f hist "Inr page" h] by auto

lemma login_history:
  assumes "login e f hist = (r, f', h)"
  shows "((\<exists>err. r = Inl err) \<and> f' = f \<and>
           (h = hist \<or> h = hist @ [loginPageReq f] \<or> h = hist @ [loginPageReq f, authReq e f])) \<or>
         (\<exists>tok. Do e (hist @ [loginPageReq f]) (authReq e f) = Inr (Inr tok) \<and>
            f' = f\<lparr> token := tok \<rparr> \<and>
            fetchPageInner e (f\<lparr> token := tok \<rparr>) (hist @ [loginPageReq f, authReq e f]) = (r, h))"
  using assms
  by (auto simp: login_def loginPageReq_def authReq_def Let_def
      split: option.splits sum.splits prod.splits)

lemma login_success_history:
  assumes "NewRequestErr e (URL (loginPageReq f)) = None"
    and "Do e hist (loginPageReq f) = Inr lp"
    and "NewRequestErr e (URL (authReq e f)) = None"
    and "Do e (hist @ [loginPageReq f]) (authReq e f) = Inr (Inr tok)"
    and "NewRequestErr e (URL (pageReq f tok)) = None"
  shows "snd (snd (login e f hist)) = hist @ [loginPageReq f, authReq e f, pageReq f tok]"
  using assms
  by (auto simp: login_def fetchPageInner_def loginPageReq_def authReq_def pageReq_def Let_def
      split: option.splits sum.splits prod.splits)

lemma fetchPage_stale:
  assumes "token f \<noteq> []" "fetchPageInner e f hist = (Inr page, hist1)"
    "findTextNode page ''Login'' \<noteq> None"
  shows "fetchPage e f hist = login e f hist1"
  using assms by (auto simp: fetchPage_def)

lemma writeMetrics_still_login:
  assumes "fetchPage e f hist = (Inr page', f', hist')" "findTextNode page' ''Login'' \<noteq> None"
  shows "writeMetrics e lib f hist w =
           (Some (Error (ErrorString ''Unable to get past login page'')), w, f', hist')"
  using assms by (simp add: writeMetrics_def)

lemma login_steps:
  "(\<forall>err. NewRequestErr e (URL (loginPageReq f)) = Some err \<longrightarrow>
      login e f hist = (Inl err, f, hist)) \<and>
   (\<forall>err. NewRequestErr e (URL (loginPageReq f)) = None \<and>
      Do e hist (loginPageReq f) = Inl err \<longrightarrow>
      login e f hist = (Inl err, f, hist @ [loginPageReq f])) \<and>
   (\<forall>lp err. NewRequestErr e (URL (loginPageReq f)) = None \<and>
      Do e hist (loginPageReq f) = Inr lp \<and>
      NewRequestErr e (URL (authReq e f)) = Some err \<longrightarrow>
      login e f hist = (Inl err, f, hist @ [loginPageReq f])) \<and>
   (\<forall>lp err. NewRequestErr e (URL (loginPageReq f)) = None \<and>
      Do e hist (loginPageReq f) = Inr lp \<and>
      NewRequestErr e (URL (authReq e f)) = None \<and>
      Do e (hist @ [loginPageReq f]) (authReq e f) = Inl err \<longrightarrow>
      login e f hist = (Inl err, f, hist @ [loginPageReq f, authReq e f])) \<and>
   (\<forall>lp err. NewRequestErr e (URL (loginPageReq f)) = None \<and>
      Do e hist (loginPageReq f) = Inr lp \<and>
      NewRequestErr e (URL (authReq e f)) = None \<and>
      Do e (hist @ [loginPageReq f]) (authReq e f) = Inr (Inl err) \<longrightarrow>
      login e f hist = (Inl err, f, hist @ [loginPageReq f, authReq e f])) \<and>
   (\<forall>lp tok err. NewRequestErr e (URL (loginPageReq f)) = None \<and>
      Do e hist (loginPageReq f) = Inr lp \<and>
      NewRequestErr e (URL (authReq e f)) = None \<and>
      Do e (hist @ [loginPageReq f]) (authReq e f) = Inr (Inr tok) \<and>
      NewRequestErr e (URL (pageReq f tok)) = Some err \<longrightarrow>
      login e f hist = (Inl err, f\<lparr> token := tok \<rparr>, hist @ [loginPageReq f, authReq e f])) \<and>
   (\<forall>lp tok. NewRequestErr e (URL (loginPageReq f)) = None \<and>
      Do e hist (loginPageReq f) = Inr lp \<and>
      NewRequestErr e (URL (authReq e f)) = None \<and>
      Do e (hist @ [loginPageReq f]) (authReq e f) = Inr (Inr tok) \<and>
      NewRequestErr e (URL (pageReq f tok)) = None \<longrightarrow>
      login e f hist =
        ((case Do e (hist @ [loginPageReq f, authReq e f]) (pageReq f tok) of
            Inl err \<Rightarrow> Inl err
          | Inr body \<Rightarrow> (case body of Inl err \<Rightarrow> Inl err | Inr bytes \<Rightarrow> Parse e bytes)),
         f\<lparr> token := tok \<rparr>, hist @ [loginPageReq f, authReq e f, pageReq f tok]))"
  by (auto simp: login_def fetchPageInner_def loginPageReq_def authReq_def pageReq_def Let_def
      split: option.splits sum.splits prod.splits)

text \<open>
  C2 (amended): a fetch that starts with a cached token and whose directly fetched page
  shows \<^verbatim>\<open>Login\<close> runs the handshake at most once and retries the fetch at most once,
  with the token the handshake obtained. When no step of the handshake fails (building
  and sending the login page request and the authentication request, reading the token,
  building the retry request), it is exactly one handshake and exactly one retry, and
  the result is that of the retry. When a step fails, the fetch returns the error of that
  step and sends nothing after it: no retry. If the retried page shows \<^verbatim>\<open>Login\<close> too,
  \<open>writeMetrics\<close> fails, with nothing written and no further request.
\<close>

theorem stale_token_one_retry:
  assumes "token f \<noteq> []" and "fetchPageInner e f hist = (Inr page, hist1)"
    and "findTextNode page ''Login'' \<noteq> None"
  shows "hist1 = hist @ [pageReq f (token f)] \<and>
    (case fetchPage e f hist of
       (r, f', hist') \<Rightarrow>
         ((\<exists>err. r = Inl err) \<and>
            (hist' = hist1 \<or> hist' = hist1 @ [loginPageReq f] \<or>
             hist' = hist1 @ [loginPageReq f, authReq e f])) \<or>
         (\<exists>tok. Do e (hist1 @ [loginPageReq f]) (authReq e f) = Inr (Inr tok) \<and>
            f' = f\<lparr> token := tok \<rparr> \<and>
            hist' = hist1 @ [loginPageReq f, authReq e f, pageReq f tok] \<and>
            (\<forall>page'. r = Inr page' \<and> findTextNode page' ''Login'' \<noteq> None \<longrightarrow>
               writeMetrics e lib f hist w =
                 (Some (Error (ErrorString ''Unable to get past login page'')), w, f', hist')))) \<and>
    (\<forall>lp tok.
       NewRequestErr e (URL (loginPageReq f)) = None \<and> Do e hist1 (loginPageReq f) = Inr lp \<and>
       NewRequestErr e (URL (authReq e f)) = None \<and>
       Do e (hist1 @ [loginPageReq f]) (authReq e f) = Inr (Inr tok) \<and>
       NewRequestErr e (URL (pageReq f tok)) = None \<longrightarrow>
       snd (snd (fetchPage e f hist)) = hist1 @ [loginPageReq f, authReq e f, pageReq f tok]) \<and>
    (\<forall>err. NewRequestErr e (URL (loginPageReq f)) = Some err \<longrightarrow>
       fetchPage e f hist = (Inl err, f, hist1)) \<and>
    (\<forall>err. NewRequestErr e (URL (loginPageReq f)) = None \<and>
       Do e hist1 (loginPageReq f) = Inl err \<longrightarrow>
       fetchPage e f hist = (Inl err, f, hist1 @ [loginPageReq f])) \<and>
    (\<forall>lp err. NewRequestErr e (URL (loginPageReq f)) = None \<and>
       Do e hist1 (loginPageReq f) = Inr lp \<and>
       NewRequestErr e (URL (authReq e f)) = Some err \<longrightarrow>
       fetchPage e f hist = (Inl err, f, hist1 @ [loginPageReq f])) \<and>
    (\<forall>lp err. NewRequestErr e (URL (loginPageReq f)) = None \<and>
       Do e hist1 (loginPageReq f) = Inr lp \<and>
       NewRequestErr e (URL (authReq e f)) = None \<and>
       Do e (hist1 @ [loginPageReq f]) (authReq e f) = Inl err \<longrightarrow>
       fetchPage e f hist = (Inl err, f, hist1 @ [loginPageReq f, authReq e f])) \<and>
    (\<forall>lp err. NewRequestErr e (URL (loginPageReq f)) = None \<and>
       Do e hist1 (loginPageReq f) = Inr lp \<and>
       NewRequestErr e (URL (authReq e f)) = None \<and>
       Do e (hist1 @ [loginPageReq f]) (authReq e f) = Inr (Inl err) \<longrightarrow>
       fetchPage e f hist = (Inl err, f, hist1 @ [loginPageReq f, authReq e f])) \<and>
    (\<forall>lp tok err. NewRequestErr e (URL (loginPageReq f)) = None \<and>
       Do e hist1 (loginPageReq f) = Inr lp \<and>
       NewRequestErr e (URL (authReq e f)) = None \<and>
       Do e (hist1 @ [loginPageReq f]) (authReq e f) = Inr (Inr tok) \<and>
       NewRequestErr e (URL (pageReq f tok)) = Some err \<longrightarrow>
       fetchPage e f hist = (Inl err, f\<lparr> token := tok \<rparr>, hist1 @ [loginPageReq f, authReq e f])) \<and>
    (\<forall>lp tok. NewRequestErr e (URL (loginPageReq f)) = None \<and>
       Do e hist1 (loginPageReq f) = Inr lp \<and>
       NewRequestErr e (URL (authReq e f)) = None \<and>
       Do e (hist1 @ [loginPageReq f]) (authReq e f) = Inr (Inr tok) \<and>
       NewRequestErr e (URL (pageReq f tok)) = None \<longrightarrow>
       fetchPage e f hist =
         ((case Do e (hist1 @ [loginPageReq f, authReq e f]) (pageReq f tok) of
             Inl err \<Rightarrow> Inl err
           | Inr body \<Rightarrow> (case body of Inl err \<Rightarrow> Inl err | Inr bytes \<Rightarrow> Parse e bytes)),
          f\<lparr> token := tok \<rparr>, hist1 @ [loginPageReq f, authReq e f, pageReq f tok]))"
proof -
  note stale = fetchPage_stale [OF assms]
  have h1: "hist1 = hist @ [pageReq f (token f)]"
    using assms(2) by (rule fetchPageInner_page_history)
  have c2: "case fetchPage e f hist of
       (r, f', hist') \<Rightarrow>
         ((\<exists>err. r = Inl err) \<and>
            (hist' = hist1 \<or> hist' = hist1 @ [loginPageReq f] \<or>
             hist' = hist1 @ [loginPageReq f, authReq e f])) \<or>
         (\<exists>tok. Do e (hist1 @ [loginPageReq f]) (authReq e f) = Inr (Inr tok) \<and>
            f' = f\<lparr> token := tok \<rparr> \<and>
            hist' = hist1 @ [loginPageReq f, authReq e f, pageReq f tok] \<and>
            (\<forall>page'. r = Inr page' \<and> findTextNode page' ''Login'' \<noteq> None \<longrightarrow>
               writeMetrics e lib f hist w =
                 (Some (Error (ErrorString ''Unable to get past login page'')), w, f', hist')))"
  proof (cases "fetchPage e f hist")
    case (fields r f' hist')
    with stale have l: "login e f hist1 = (r, f', hist')" by simp
    from login_history [OF l] show ?thesis
    proof
      assume "(\<exists>err. r = Inl err) \<and> f' = f \<and>
           (hist' = hist1 \<or> hist' = hist1 @ [loginPageReq f] \<or>
            hist' = hist1 @ [loginPageReq f, authReq e f])"
      with fields show ?thesis by auto
    next
      assume "\<exists>tok. Do e (hist1 @ [loginPageReq f]) (authReq e f) = Inr (Inr tok) \<and>
            f' = f\<lparr> token := tok \<rparr> \<and>
            fetchPageInner e (f\<lparr> token := tok \<rparr>) (hist1 @ [loginPageReq f, authReq e f]) = (r, hist')"
      then obtain tok where
        t: "Do e (hist1 @ [loginPageReq f]) (authReq e f) = Inr (Inr tok)" "f' = f\<lparr> token := tok \<rparr>"
        "fetchPageInner e (f\<lparr> token := tok \<rparr>) (hist1 @ [loginPageReq f, authReq e f]) = (r, hist')"
        by blast
      have pr: "pageReq (f\<lparr> token := tok \<rparr>) (token (f\<lparr> token := tok \<rparr>)) = pageReq f tok"
        by (simp add: pageReq_def)
      from fetchPageInner_history [OF t(3)]
      have "(hist' = hist1 @ [loginPageReq f, authReq e f] \<and> (\<exists>err. r = Inl err)) \<or>
            hist' = hist1 @ [loginPageReq f, authReq e f, pageReq f tok]"
        unfolding pr by simp
      then show ?thesis
      proof
        assume "hist' = hist1 @ [loginPageReq f, authReq e f] \<and> (\<exists>err. r = Inl err)"
        with fields show ?thesis by auto
      next
        assume h: "hist' = hist1 @ [loginPageReq f, authReq e f, pageReq f tok]"
        have "\<forall>page'. r = Inr page' \<and> findTextNode page' ''Login'' \<noteq> None \<longrightarrow>
               writeMetrics e lib f hist w =
                 (Some (Error (ErrorString ''Unable to get past login page'')), w, f', hist')"
          using fields by (auto intro: writeMetrics_still_login)
        with t(1,2) h fields show ?thesis by auto
      qed
    qed
  qed
  have c3: "\<forall>lp tok.
       NewRequestErr e (URL (loginPageReq f)) = None \<and> Do e hist1 (loginPageReq f) = Inr lp \<and>
       NewRequestErr e (URL (authReq e f)) = None \<and>
       Do e (hist1 @ [loginPageReq f]) (authReq e f) = Inr (Inr tok) \<and>
       NewRequestErr e (URL (pageReq f tok)) = None \<longrightarrow>
       snd (snd (fetchPage e f hist)) = hist1 @ [loginPageReq f, authReq e f, pageReq f tok]"
    unfolding stale
    by (intro allI impI) (elim conjE, rule login_success_history)
  note steps = login_steps [of e f hist1, folded stale]
  show ?thesis
    by (rule conjI [OF h1 conjI [OF c2 conjI [OF c3 steps]]])
qed


text \<open>
  A modem that keeps answering with the login page: four requests are sent (fetch, login
  page, authentication, one retry) and \<open>writeMetrics\<close> fails. A modem whose
  authentication request times out: three requests are sent, and the fetch returns the
  timeout without a retry.
\<close>

theorem stale_token_one_retry_witness:
  "token exFetcher \<noteq> [] \<and>
   fetchPageInner lockedEnv exFetcher [] = (Inr loginPage, [pageReq exFetcher ''old'']) \<and>
   findTextNode loginPage ''Login'' \<noteq> None \<and>
   snd (snd (fetchPage lockedEnv exFetcher [])) =
     [pageReq exFetcher ''old'', loginPageReq exFetcher, authReq lockedEnv exFetcher,
      pageReq exFetcher ''new''] \<and>
   writeMetrics lockedEnv exLib exFetcher [] [] =
     (Some (Error (ErrorString ''Unable to get past login page'')), [],
      exFetcher\<lparr> token := ''new'' \<rparr>,
      [pageReq exFetcher ''old'', loginPageReq exFetcher, authReq lockedEnv exFetcher,
       pageReq exFetcher ''new'']) \<and>
   fetchPageInner authDownEnv exFetcher [] = (Inr loginPage, [pageReq exFetcher ''old'']) \<and>
   fetchPage authDownEnv exFetcher [] =
     (Inl (TransportError ''timeout''), exFetcher,
      [pageReq exFetcher ''old'', loginPageReq exFetcher, authReq authDownEnv exFetcher])"
proof -
  have t: "token exFetcher \<noteq> []" by (simp add: exFetcher_def)
  have i: "fetchPageInner lockedEnv exFetcher [] = (Inr loginPage, [pageReq exFetcher ''old''])"
    by (simp add: env_defs pageReq_def)
  have l: "findTextNode loginPage ''Login'' \<noteq> None" by (simp add: page_defs)
  note th = stale_token_one_retry [OF t i l, of exLib "[]"]
  have n1: "NewRequestErr lockedEnv (URL (loginPageReq exFetcher)) = None"
    and n2: "NewRequestErr lockedEnv (URL (authReq lockedEnv exFetcher)) = None"
    and n3: "NewRequestErr lockedEnv (URL (pageReq exFetcher ''new'')) = None"
    by (simp_all add: env_defs)
  have d1: "Do lockedEnv [pageReq exFetcher ''old''] (loginPageReq exFetcher) = Inr (Inr ''login'')"
    by (simp add: env_defs loginPageReq_def)
  have d2: "Do lockedEnv ([pageReq exFetcher ''old''] @ [loginPageReq exFetcher])
              (authReq lockedEnv exFetcher) = Inr (Inr ''new'')"
    by (simp add: env_defs authReq_def)
  note h = th [THEN conjunct2, THEN conjunct2, THEN conjunct1, THEN spec, THEN spec, THEN mp,
      OF conjI [OF n1 conjI [OF d1 conjI [OF n2 conjI [OF d2 n3]]]]]
  then have h': "snd (snd (fetchPage lockedEnv exFetcher [])) =
     [pageReq exFetcher ''old'', loginPageReq exFetcher, authReq lockedEnv exFetcher,
      pageReq exFetcher ''new'']" by simp
  have r: "fst (fetchPage lockedEnv exFetcher []) = Inr loginPage"
    by (simp add: env_defs l)
  obtain f' hist' where fp: "fetchPage lockedEnv exFetcher [] = (Inr loginPage, f', hist')"
    using r by (cases "fetchPage lockedEnv exFetcher []") simp
  from th [THEN conjunct2, THEN conjunct1] fp l
  have w: "f' = exFetcher\<lparr> token := ''new'' \<rparr> \<and>
     writeMetrics lockedEnv exLib exFetcher [] [] =
       (Some (Error (ErrorString ''Unable to get past login page'')), [], f', hist')"
    using d2 by auto
  from fp h' have "hist' = [pageReq exFetcher ''old'', loginPageReq exFetcher,
      authReq lockedEnv exFetcher, pageReq exFetcher ''new'']" by simp
  with w have "writeMetrics lockedEnv exLib exFetcher [] [] =
     (Some (Error (ErrorString ''Unable to get past login page'')), [],
      exFetcher\<lparr> token := ''new'' \<rparr>,
      [pageReq exFetcher ''old'', loginPageReq exFetcher, authReq lockedEnv exFetcher,
       pageReq exFetcher ''new''])" by simp
  then have wm: "writeMetrics lockedEnv exLib exFetcher [] [] =
     (Some (Error (ErrorString ''Unable to get past login page'')), [],
      exFetcher\<lparr> token := ''new'' \<rparr>,
      [pageReq exFetcher ''old'', loginPageReq exFetcher, authReq lockedEnv exFetcher,
       pageReq exFetcher ''new''])" .
  have ai: "fetchPageInner authDownEnv exFetcher [] = (Inr loginPage, [pageReq exFetcher ''old''])"
    by (simp add: env_defs pageReq_def)
  have an1: "NewRequestErr authDownEnv (URL (loginPageReq exFetcher)) = None"
    and an2: "NewRequestErr authDownEnv (URL (authReq authDownEnv exFetcher)) = None"
    by (simp_all add: env_defs)
  have ad1: "Do authDownEnv [pageReq exFetcher ''old''] (loginPageReq exFetcher) = Inr (Inr ''login'')"
    by (simp add: env_defs loginPageReq_def)
  have ad2: "Do authDownEnv ([pageReq exFetcher ''old''] @ [loginPageReq exFetcher])
              (authReq authDownEnv exFetcher) = Inl (TransportError ''timeout'')"
    by (simp add: env_defs authReq_def)
  note stale_token_one_retry [OF t ai l, of exLib "[]", THEN conjunct2, THEN conjunct2,
      THEN conjunct2, THEN conjunct2, THEN conjunct2, THEN conjunct2, THEN conjunct1, THEN spec,
      THEN spec, THEN mp, OF conjI [OF an1 conjI [OF ad1 conjI [OF an2 ad2]]]]
  then have af: "fetchPage authDownEnv exFetcher [] =
     (Inl (TransportError ''timeout''), exFetcher,
      [pageReq exFetcher ''old'', loginPageReq exFetcher, authReq authDownEnv exFetcher])"
    by simp
  from t i l h' wm ai af show ?thesis by (intro conjI)
qed

text \<open>
  When the login page request fails, the fetch ends with that error: no authentication request and no retry are sent.
\<close>

theorem handshake_error_no_retry:
  "token exFetcher \<noteq> [] \<and>
   fetchPageInner downEnv exFetcher [] = (Inr loginPage, [pageReq exFetcher ''old'']) \<and>
   findTextNode loginPage ''Login'' \<noteq> None \<and>
   fetchPage downEnv exFetcher [] =
     (Inl (TransportError ''connection refused''), exFetcher,
      [pageReq exFetcher ''old'', loginPageReq exFetcher])"
proof (intro conjI)
  show "token exFetcher \<noteq> []" by (simp add: exFetcher_def)
  show l: "findTextNode loginPage ''Login'' \<noteq> None" by (simp add: page_defs)
  show "fetchPageInner downEnv exFetcher [] = (Inr loginPage, [pageReq exFetcher ''old''])"
    by (simp add: env_defs pageReq_def)
  show "fetchPage downEnv exFetcher [] =
     (Inl (TransportError ''connection refused''), exFetcher,
      [pageReq exFetcher ''old'', loginPageReq exFetcher])"
    using l by (simp add: env_defs pageReq_def loginPageReq_def)
qed

end
